theory Spec2Isabelle
  imports Main "HOL-Library.Word" "HOL-Library.Sublist"
begin

section \<open>JavaScript strings\<close>

text \<open>
  A JavaScript string is a sequence of 16-bit UTF-16 code units. \<open>trim\<close>,
  \<open>includes\<close>, \<open>startsWith\<close> and a regular expression without the \<open>u\<close> flag all
  work on code units, so the model does too. \<open>js\<close> turns an ASCII literal of the
  source into its code units.
\<close>

type_synonym jsstring = "16 word list"

definition js :: "string \<Rightarrow> jsstring" where
  "js s = map of_char s"

text \<open>
  \<open>String.prototype.trim\<close> removes leading and trailing WhiteSpace and
  LineTerminator code units: TAB, LF, VT, FF, CR, SP, NBSP, U+1680, U+2000..U+200A,
  U+2028, U+2029, U+202F, U+205F, U+3000 and U+FEFF.
\<close>

definition isWhiteSpace :: "16 word \<Rightarrow> bool" where
  "isWhiteSpace c \<longleftrightarrow>
     (0x0009 \<le> c \<and> c \<le> 0x000D) \<or> c = 0x0020 \<or> c = 0x00A0 \<or> c = 0x1680 \<or>
     (0x2000 \<le> c \<and> c \<le> 0x200A) \<or> c = 0x2028 \<or> c = 0x2029 \<or> c = 0x202F \<or>
     c = 0x205F \<or> c = 0x3000 \<or> c = 0xFEFF"

definition trim :: "jsstring \<Rightarrow> jsstring" where
  "trim s = rev (dropWhile isWhiteSpace (rev (dropWhile isWhiteSpace s)))"

text \<open>\<open>s.startsWith(p)\<close>: the first \<open>p.length\<close> code units of \<open>s\<close> are \<open>p\<close>.\<close>

fun startsWith :: "jsstring \<Rightarrow> jsstring \<Rightarrow> bool" where
  "startsWith s [] = True"
| "startsWith [] (p # ps) = False"
| "startsWith (c # cs) (p # ps) = (c = p \<and> startsWith cs ps)"

text \<open>\<open>s.includes(t)\<close>: \<open>t\<close> occurs in \<open>s\<close> at some position, searched from the left.\<close>

fun includes_js :: "jsstring \<Rightarrow> jsstring \<Rightarrow> bool" where
  "includes_js [] t = (t = [])"
| "includes_js (c # cs) t = (startsWith (c # cs) t \<or> includes_js cs t)"

text \<open>
  The character class of \<open>/[^\d+()-]/g\<close>: without the \<open>u\<close> flag \<open>\d\<close> is the ASCII
  digits, and \<open>+\<close>, \<open>(\<close>, \<open>)\<close> and the final \<open>-\<close> are literal. The class is negated:
  a code unit matches when it is none of these.
\<close>

definition isDigit :: "16 word \<Rightarrow> bool" where
  "isDigit c \<longleftrightarrow> 0x30 \<le> c \<and> c \<le> 0x39"

definition matchesNonPhone :: "16 word \<Rightarrow> bool" where
  "matchesNonPhone c \<longleftrightarrow>
     \<not> (isDigit c \<or> c = of_char CHR ''+'' \<or> c = of_char CHR ''('' \<or>
        c = of_char CHR '')'' \<or> c = of_char CHR ''-'')"

text \<open>
  \<open>s.replace(re, '')\<close> with a global one-character class: every matching code
  unit is replaced by the empty string, the others are copied in order.
\<close>

fun replaceAllWithEmpty :: "(16 word \<Rightarrow> bool) \<Rightarrow> jsstring \<Rightarrow> jsstring" where
  "replaceAllWithEmpty m [] = []"
| "replaceAllWithEmpty m (c # cs) =
     (if m c then replaceAllWithEmpty m cs else c # replaceAllWithEmpty m cs)"

section \<open>ContactButton\<close>

text \<open>The prop \<open>type: 'email' | 'phone' | 'website'\<close> of \<open>ContactButtonProps\<close>.\<close>

datatype ContactType = Email | Phone | Website

text \<open>
  \<open>getHref\<close>, lines 202 to 226. The \<open>default\<close> branch of the switch is outside
  the prop's type and has no counterpart here.
\<close>

definition getHref :: "ContactType \<Rightarrow> jsstring \<Rightarrow> jsstring" where
  "getHref type value =
     (let cleanValue = trim value in
      case type of
        Email \<Rightarrow>
          if includes_js cleanValue (js ''@'') then js ''mailto:'' @ cleanValue
          else js ''#''
      | Phone \<Rightarrow>
          (let phoneNumber = replaceAllWithEmpty matchesNonPhone cleanValue in
           if phoneNumber \<noteq> [] then js ''tel:'' @ phoneNumber
           else js ''#'')
      | Website \<Rightarrow>
          if startsWith cleanValue (js ''http://'') \<or> startsWith cleanValue (js ''https://'')
          then cleanValue
          else if includes_js cleanValue (js ''.'') then js ''https://'' @ cleanValue
          else js ''#'')"

text \<open>
  A thrown JavaScript value, and the part of the browser that \<open>handleClick\<close> acts
  on: the arguments of every \<open>window.open\<close> call and of every \<open>console.error\<close>
  call, in order. A statement either completes or throws; what it did to the
  browser before throwing stays done.
\<close>

datatype exn = Exn jsstring

record Browser =
  openCalls :: "(jsstring \<times> jsstring) list"
  consoleErrors :: "(jsstring \<times> exn) list"

type_synonym 'a stmt = "Browser \<Rightarrow> (exn + 'a) \<times> Browser"

text \<open>
  \<open>window.open(url, target)\<close>. Whether the call throws is the browser's
  decision, taken here as the parameter \<open>throws\<close>.
\<close>

definition window_open :: "(jsstring \<Rightarrow> exn option) \<Rightarrow> jsstring \<Rightarrow> jsstring \<Rightarrow> unit stmt" where
  "window_open throws url target b =
     (let b' = b\<lparr>openCalls := openCalls b @ [(url, target)]\<rparr> in
      case throws url of Some e \<Rightarrow> (Inl e, b') | None \<Rightarrow> (Inr (), b'))"

definition console_error :: "jsstring \<Rightarrow> exn \<Rightarrow> unit stmt" where
  "console_error msg e b = (Inr (), b\<lparr>consoleErrors := consoleErrors b @ [(msg, e)]\<rparr>)"

text \<open>\<open>try { body } catch (error) { handler }\<close>.\<close>

definition tryCatch :: "'a stmt \<Rightarrow> (exn \<Rightarrow> 'a stmt) \<Rightarrow> 'a stmt" where
  "tryCatch body handler b =
     (case body b of (Inl e, b') \<Rightarrow> handler e b' | (Inr v, b') \<Rightarrow> (Inr v, b'))"

text \<open>
  \<open>handleClick\<close>, lines 242 to 251. \<open>href &&\<close> is the truthiness of a string: it is
  not empty.
\<close>

definition handleClick :: "(jsstring \<Rightarrow> exn option) \<Rightarrow> ContactType \<Rightarrow> jsstring \<Rightarrow> unit stmt" where
  "handleClick throws type value =
     tryCatch
       (\<lambda>b. let href = getHref type value in
            if href \<noteq> [] \<and> href \<noteq> js ''#'' then window_open throws href (js ''_blank'') b
            else (Inr (), b))
       (\<lambda>error. console_error (js ''Error opening contact link:'') error)"

text \<open>\<open>getTitle\<close>, lines 228 to 240.\<close>

definition getTitle :: "ContactType \<Rightarrow> jsstring \<Rightarrow> jsstring" where
  "getTitle type value =
     (let cleanValue = trim value in
      case type of
        Email \<Rightarrow> js ''Send email to '' @ cleanValue
      | Phone \<Rightarrow> js ''Call '' @ cleanValue
      | Website \<Rightarrow> js ''Visit website: '' @ cleanValue)"

text \<open>
  What the description of \<open>getHref\<close> says, in its own words: membership of a
  character, a prefix, and the characters that are kept.
\<close>

definition keptInPhone :: "16 word \<Rightarrow> bool" where
  "keptInPhone c \<longleftrightarrow> c \<in> of_char ` set ''0123456789+()-''"

definition getHref_spec :: "ContactType \<Rightarrow> jsstring \<Rightarrow> jsstring" where
  "getHref_spec type value =
     (let v = trim value; r = filter keptInPhone v in
      case type of
        Email \<Rightarrow> if of_char CHR ''@'' \<in> set v then js ''mailto:'' @ v else js ''#''
      | Phone \<Rightarrow> if r \<noteq> [] then js ''tel:'' @ r else js ''#''
      | Website \<Rightarrow>
          if prefix (js ''http://'') v \<or> prefix (js ''https://'') v then v
          else if of_char CHR ''.'' \<in> set v then js ''https://'' @ v
          else js ''#'')"

section \<open>Display records and props\<close>

text \<open>The interfaces of lines 33 to 64. A \<open>Date\<close> is its time value in milliseconds.\<close>

record UserType =
  user_name :: jsstring
  user_email :: jsstring
  user_avatar :: "jsstring option"
  user_uid :: jsstring

datatype FieldType = TextField | BadgeField | RatingField | PriceField | LocationField | TimeField

record SupplierField =
  field_label :: jsstring
  field_value :: jsstring
  field_type :: FieldType

record Supplier =
  supplier_id :: jsstring
  supplier_name :: jsstring
  supplier_fields :: "SupplierField list"

record Message =
  message_id :: jsstring
  message_type :: jsstring
  message_content :: jsstring
  message_timestamp :: int
  message_suppliers :: "Supplier list option"

record Chat =
  chat_id :: jsstring
  chat_title :: jsstring
  chat_messages :: "Message list"

text \<open>
  \<open>ChatPageProps\<close>, lines 66 to 88. The data props are fields. A callback prop is
  a function of the parent: the component can only call it, so each invocation is
  recorded as a \<open>Call\<close> below. Two effects list \<open>onMessageChange\<close> among their
  dependencies, which compares the function object; \<open>onMessageChange_ref\<close> is
  that object's identity, and \<open>messages_ref\<close> is the identity of the \<open>messages\<close>
  array, a dependency of the scrolling effect.
\<close>

record ChatPageProps =
  user :: UserType
  chats :: "Chat list"
  activeChat :: "jsstring option"
  messages :: "Message list"
  currentMessage :: jsstring
  search :: jsstring
  isAssistantTyping :: bool
  renamingChatId :: "jsstring option"
  renameValue :: jsstring
  onMessageChange_ref :: nat
  messages_ref :: nat

text \<open>
  What \<open>useSpeechToText()\<close> returns (lines 343 to 351) and what \<open>useIsMobile()\<close>
  returns. Both hooks live outside this file; the component reads these values
  at each render. \<open>error\<close> is a string or \<open>null\<close>.
\<close>

record SpeechToText =
  isSupported :: bool
  isRecording :: bool
  transcript :: jsstring
  speechError :: "jsstring option"
  setTranscript_ref :: nat

record Hooks =
  isMobile :: bool
  speech :: SpeechToText

datatype View = Landing | Login | Signup | ChatView

text \<open>
  A DOM event as the handlers of this file read it: \<open>e.target.value\<close> and \<open>e.key\<close>.
  Which kind of event it is follows from the attribute it is delivered to.
\<close>

record Event =
  target_value :: jsstring
  key :: jsstring

datatype RefName = RenameInputRef | InputRef | MessagesEndRef

text \<open>
  Every call the component makes to a callback prop, to a function returned by the
  speech hook, or to a method of an event or of a DOM node behind a ref.
\<close>

datatype Call =
    OnViewChange View
  | OnLogout
  | OnChatSelect jsstring
  | OnCreateNewChat
  | OnSendMessage
  | OnMessageChange jsstring
  | OnSearchChange jsstring
  | OnStartRename Chat
  | OnRenameChange jsstring
  | OnRenameSave jsstring
  | OnRenameKeyDown Event jsstring
  | StartListening
  | StopListening
  | SetTranscript jsstring
  | StopPropagation
  | Focus RefName
  | ScrollIntoView RefName

section \<open>The element tree\<close>

datatype EventKind = Click | Change | KeyDown | Blur

text \<open>
  The closures that the JSX passes as event handlers, one constructor for each,
  with the variables of the render that the closure captures.
\<close>

datatype Handler =
    ToggleSidebar bool
  | CloseSidebar
  | GoLanding
  | CallOnLogout
  | CallOnCreateNewChat
  | CreateNewChatAndClose
  | SearchInputChange
  | SelectChat bool jsstring
  | RenameInputChange
  | RenameInputBlur jsstring
  | RenameInputKeyDown jsstring
  | RenameInputClick
  | TitleClick Chat
  | MessageInputChange
  | MessageInputKeyDown bool
  | CallStartListening
  | CallStopListening
  | CallOnSendMessage
  | ContactClick ContactType jsstring

text \<open>
  The attributes that carry props, state or behaviour. The constant part of every
  \<open>className\<close>, the \<open>key\<close>s, and the sizes, variants and ARIA labels are left out:
  \<open>Class\<close> holds the part of a class name that the render chooses.
\<close>

datatype Attr =
    Class string
  | Value jsstring
  | Placeholder jsstring
  | Title jsstring
  | Disabled bool
  | AutoFocus
  | Ref RefName
  | On EventKind Handler

text \<open>
  A React element: an element with its attributes and children, a text, a number,
  or \<open>VNothing\<close> for a child that is \<open>false\<close>, \<open>null\<close>, \<open>undefined\<close> or \<open>''\<close>, which
  React renders as nothing. The children of an array (\<open>.map\<close>) are listed in place.
\<close>

datatype VNode =
    VNothing
  | VText jsstring
  | VNum nat
  | VElem string "Attr list" "VNode list"

fun children :: "VNode \<Rightarrow> VNode list" where
  "children (VElem tag as kids) = kids"
| "children n = []"

fun attrs :: "VNode \<Rightarrow> Attr list" where
  "attrs (VElem tag as kids) = as"
| "attrs n = []"

text \<open>An icon or another constant element without props.\<close>

definition icon :: "string \<Rightarrow> VNode" where
  "icon n = VElem n [] []"

section \<open>Small components\<close>

text \<open>
  \<open>s.split(sep)\<close> for a separator of one code unit: the pieces between the
  separators, empty pieces included, so \<open>''.split(',')\<close> is \<open>['']\<close>.
\<close>

fun split_on :: "16 word \<Rightarrow> jsstring \<Rightarrow> jsstring list" where
  "split_on sep [] = [[]]"
| "split_on sep (c # cs) =
     (if c = sep then [] # split_on sep cs
      else (case split_on sep cs of w # ws \<Rightarrow> (c # w) # ws | [] \<Rightarrow> [[c]]))"

text \<open>
  \<open>user?.name?.split(' ').map(n => n[0]).join('') || 'U'\<close>, lines 164 and 767:
  \<open>n[0]\<close> of an empty piece is \<open>undefined\<close>, which \<open>join\<close> writes as nothing.
\<close>

definition initials :: "jsstring \<Rightarrow> jsstring" where
  "initials n =
     (let s = concat (map (take 1) (split_on (of_char CHR '' '') n)) in
      if s \<noteq> [] then s else js ''U'')"

text \<open>\<open>UserAvatarDropdown\<close>, lines 158 to 181.\<close>

definition UserAvatarDropdown :: "UserType \<Rightarrow> VNode" where
  "UserAvatarDropdown u =
     VElem ''DropdownMenu'' []
       [VElem ''DropdownMenuTrigger'' []
          [VElem ''Button'' []
             [VElem ''Avatar'' [] [VElem ''AvatarFallback'' [] [VText (initials (user_name u))]]]],
        VElem ''DropdownMenuContent'' []
          [VElem ''div'' []
             [VElem ''p'' [] [VText (user_name u)], VElem ''p'' [] [VText (user_email u)]],
           VElem ''DropdownMenuSeparator'' [] [],
           VElem ''DropdownMenuItem'' [On Click CallOnLogout]
             [icon ''LogOut'', VElem ''span'' [] [VText (js ''Log out'')]]]]"

text \<open>\<open>getIcon\<close>, lines 189 to 200, and the button of lines 255 to 265.\<close>

definition getIcon :: "ContactType \<Rightarrow> string" where
  "getIcon type = (case type of Email \<Rightarrow> ''Mail'' | Phone \<Rightarrow> ''Phone'' | Website \<Rightarrow> ''Globe'')"

definition ContactButton :: "ContactType \<Rightarrow> jsstring \<Rightarrow> VNode" where
  "ContactButton type value =
     VElem ''Button'' [On Click (ContactClick type value), Title (getTitle type value)]
       [icon (getIcon type)]"

text \<open>\<open>renderFieldValue\<close>, lines 268 to 312.\<close>

definition renderFieldValue :: "SupplierField \<Rightarrow> VNode" where
  "renderFieldValue field =
     (case field_type field of
        BadgeField \<Rightarrow>
          if field_value field = js ''N/A'' then VElem ''span'' [] [VText (js ''N/A'')]
          else VElem ''div'' []
                 (map (\<lambda>item. VElem ''Badge'' [] [VText (trim item)])
                    (split_on (of_char CHR '','') (field_value field)))
      | RatingField \<Rightarrow>
          if field_value field = js ''N/A'' then VElem ''span'' [] [VText (js ''N/A'')]
          else VElem ''div'' [] [icon ''Star'', VElem ''span'' [] [VText (field_value field)]]
      | LocationField \<Rightarrow>
          VElem ''div'' [] [icon ''MapPin'', VElem ''span'' [] [VText (field_value field)]]
      | TimeField \<Rightarrow>
          VElem ''div'' [] [icon ''Clock'', VElem ''span'' [] [VText (field_value field)]]
      | PriceField \<Rightarrow> VElem ''span'' [Class ''text-green-400''] [VText (field_value field)]
      | TextField \<Rightarrow> VElem ''span'' [] [VText (field_value field)])"

section \<open>Supplier cards\<close>

text \<open>\<open>supplier.fields.find((f) => f.label === l)\<close>.\<close>

definition findField :: "string \<Rightarrow> Supplier \<Rightarrow> SupplierField option" where
  "findField l supplier = find (\<lambda>f. field_label f = js l) (supplier_fields supplier)"

text \<open>
  \<open>field.label.toLowerCase() as 'email' | 'phone' | 'website'\<close>, line 736, on a
  label that passed the filter of line 729 and so is one of \<open>Email\<close>, \<open>Phone\<close> and
  \<open>Website\<close>.
\<close>

definition contactTypeOf :: "jsstring \<Rightarrow> ContactType" where
  "contactTypeOf l = (if l = js ''Email'' then Email else if l = js ''Phone'' then Phone else Website)"

definition isContactField :: "SupplierField \<Rightarrow> bool" where
  "isContactField f \<longleftrightarrow>
     field_label f = js ''Email'' \<or> field_label f = js ''Phone'' \<or> field_label f = js ''Website''"

definition isOtherField :: "SupplierField \<Rightarrow> bool" where
  "isOtherField f \<longleftrightarrow>
     field_label f \<notin>
       set (map js [''Location'', ''Rating'', ''Price Range'', ''Lead Time'', ''Response Time'',
                    ''Email'', ''Phone'', ''Website''])"

text \<open>The card of one supplier, lines 662 to 758.\<close>

definition SupplierCard :: "Supplier \<Rightarrow> VNode" where
  "SupplierCard supplier =
     VElem ''Card'' []
       [VElem ''CardHeader'' []
          [VElem ''div'' []
             [VElem ''div'' []
                [VElem ''CardTitle'' [] [VText (supplier_name supplier)],
                 (case findField ''Location'' supplier of
                    None \<Rightarrow> VNothing
                  | Some f \<Rightarrow>
                      VElem ''div'' [] [icon ''MapPin'', VElem ''span'' [] [VText (field_value f)]])],
              (case findField ''Rating'' supplier of
                 None \<Rightarrow> VNothing
               | Some f \<Rightarrow>
                   VElem ''div'' [] [icon ''Star'', VElem ''span'' [] [VText (field_value f)]])]],
        VElem ''CardContent'' []
          ([(case findField ''Price Range'' supplier of
               None \<Rightarrow> VNothing
             | Some f \<Rightarrow>
                 VElem ''div'' []
                   [VElem ''span'' [] [VText (js ''Price Range'')],
                    VElem ''span'' [] [VText (field_value f)]]),
            (case findField ''Lead Time'' supplier of
               None \<Rightarrow> VNothing
             | Some f \<Rightarrow>
                 VElem ''div'' []
                   [VElem ''span'' [] [VText (js ''Lead Time'')],
                    VElem ''div'' [] [icon ''Clock'', VElem ''span'' [] [VText (field_value f)]]]),
            (case findField ''Response Time'' supplier of
               None \<Rightarrow> VNothing
             | Some f \<Rightarrow>
                 VElem ''div'' []
                   [VElem ''span'' [] [VText (js ''Response Time'')],
                    VElem ''div'' [] [icon ''Clock'', VElem ''span'' [] [VText (field_value f)]]]),
            VElem ''div'' []
              (map (\<lambda>field.
                      VElem ''div'' []
                        [VElem ''span'' [] [VText (field_label field), VText (js '':'')],
                         VElem ''div'' []
                           [VElem ''span'' [] [VText (field_value field)],
                            ContactButton (contactTypeOf (field_label field)) (field_value field)]])
                 (filter isContactField (supplier_fields supplier)))]
           @ map (\<lambda>field.
                    VElem ''div'' []
                      [VElem ''div'' [] [VElem ''span'' [] [VText (field_label field), VText (js '':'')]],
                       VElem ''div'' [] [renderFieldValue field]])
               (filter isOtherField (supplier_fields supplier)))]"

text \<open>
  The supplier results section of a message, lines 646 to 762:
  \<open>message.suppliers && message.suppliers.length > 0 && (...)\<close>.
\<close>

definition SupplierSection :: "Message \<Rightarrow> VNode" where
  "SupplierSection message =
     (case message_suppliers message of
        None \<Rightarrow> VNothing
      | Some suppliers \<Rightarrow>
          if length suppliers > 0 then
            VElem ''div'' []
              [VElem ''div'' []
                 [VElem ''div'' [] [icon ''Building''],
                  VElem ''div'' []
                    [VElem ''h3'' [] [VText (js ''Top Supplier Matches'')],
                     VElem ''p'' []
                       [VText (js ''Found ''), VNum (length suppliers),
                        VText (js '' suppliers matching your criteria'')]]],
               VElem ''div'' [] (map SupplierCard suppliers)]
          else VNothing)"

section \<open>The chat page\<close>

text \<open>One message of the conversation, lines 592 to 771.\<close>

definition MessageItem :: "UserType \<Rightarrow> Message \<Rightarrow> VNode" where
  "MessageItem u message =
     VElem ''div'' [Class (if message_type message = js ''user'' then ''justify-end'' else ''justify-start'')]
       [if message_type message \<noteq> js ''user''
        then VElem ''div'' [] [VElem ''div'' [] [icon ''svg'']]
        else VNothing,
        VElem ''div''
          [Class (if message_type message = js ''user'' then ''items-end max-w-xs md:max-w-xl''
                  else ''items-start max-w-full'')]
          [VElem ''div''
             [Class (if message_type message = js ''user''
                     then ''bg-gradient-to-br from-blue-500 to-indigo-600 text-white self-end border border-blue-700 hover:shadow-blue-700/30''
                     else ''bg-gradient-to-br from-zinc-800 to-zinc-900 text-white self-start border border-zinc-700 hover:shadow-black/20'')]
             [VText (message_content message)],
           SupplierSection message],
        if message_type message = js ''user''
        then VElem ''div'' [] [VElem ''div'' [] [VText (initials (user_name u))]]
        else VNothing]"

text \<open>The messages area, lines 584 to 824.\<close>

definition MessagesArea :: "ChatPageProps \<Rightarrow> VNode" where
  "MessagesArea p =
     VElem ''div'' []
       [if length (messages p) = 0
        then VElem ''div'' [] [VText (js ''No messages yet.'')]
        else VElem ''Fragment'' []
               (map (MessageItem (user p)) (messages p) @
                [if isAssistantTyping p
                 then VElem ''div'' []
                        [VElem ''div'' [] [VElem ''div'' [] [icon ''svg'']],
                         VElem ''div'' [] [VElem ''div'' [] [icon ''TypingIndicator'']]]
                 else VNothing,
                 VElem ''div'' [Ref MessagesEndRef] []])]"

text \<open>
  Line 390. \<open>toLowerCase\<close> is the built-in of the JavaScript engine, with the
  case mapping of Unicode; it is a parameter of the model.
\<close>

definition filteredChats :: "(jsstring \<Rightarrow> jsstring) \<Rightarrow> ChatPageProps \<Rightarrow> Chat list" where
  "filteredChats toLowerCase p =
     filter (\<lambda>chat. includes_js (toLowerCase (chat_title chat)) (toLowerCase (search p))) (chats p)"

text \<open>One row of the chat list, lines 527 to 569.\<close>

definition ChatRow :: "ChatPageProps \<Rightarrow> Hooks \<Rightarrow> Chat \<Rightarrow> VNode" where
  "ChatRow p h chat =
     VElem ''div''
       [Class (if activeChat p = Some (chat_id chat) then ''bg-zinc-800'' else ''hover:bg-zinc-800/70''),
        On Click (SelectChat (isMobile h) (chat_id chat))]
       [VElem ''div'' []
          [VElem ''div'' []
             [if renamingChatId p = Some (chat_id chat)
              then VElem ''input''
                     [Ref RenameInputRef, Value (renameValue p), On Change RenameInputChange,
                      On Blur (RenameInputBlur (chat_id chat)),
                      On KeyDown (RenameInputKeyDown (chat_id chat)), AutoFocus,
                      On Click RenameInputClick] []
              else VElem ''div'' []
                     [VElem ''span'' [On Click (TitleClick chat), Title (js ''Click to rename'')]
                        [VText (chat_title chat)],
                      VElem ''button'' [On Click (TitleClick chat), Title (js ''Rename'')]
                        [icon ''svg'']]],
           VElem ''span'' [] [VNum (length (chat_messages chat)), VText (js '' messages'')]]]"

text \<open>The sidebar, lines 452 to 572.\<close>

definition Sidebar :: "(jsstring \<Rightarrow> jsstring) \<Rightarrow> ChatPageProps \<Rightarrow> Hooks \<Rightarrow> bool \<Rightarrow> VNode" where
  "Sidebar toLowerCase p h sidebarOpen =
     VElem ''aside''
       [Class (if isMobile h
               then ''fixed left-0 top-0 h-full w-80 bg-zinc-900 border-r border-zinc-800 z-50 transform transition-transform duration-300 ease-in-out ''
                    @ (if sidebarOpen then ''translate-x-0'' else ''-translate-x-full'')
               else ''w-[340px] bg-zinc-900 border-r border-zinc-800'')]
       [if isMobile h
        then VElem ''div'' []
               [VElem ''h2'' [] [VText (js ''My Chats'')],
                VElem ''Button'' [On Click CloseSidebar] [icon ''X'']]
        else VNothing,
        if \<not> isMobile h
        then VElem ''div'' []
               [VElem ''h2'' [] [VText (js ''My Chats'')],
                VElem ''div'' [] [VElem ''Button'' [On Click CallOnCreateNewChat] [icon ''Plus'']]]
        else VNothing,
        if isMobile h
        then VElem ''div'' []
               [VElem ''Button'' [On Click CreateNewChatAndClose]
                  [icon ''Plus'', VElem ''span'' [] [VText (js ''New Chat'')]]]
        else VNothing,
        VElem ''div'' []
          [VElem ''Button'' []
             [VText (js ''CHATS ''), VElem ''span'' [] [VNum (length (chats p))]]],
        VElem ''div'' []
          [VElem ''div'' []
             [VElem ''input''
                [Placeholder (js ''Search...''), Value (search p), On Change SearchInputChange] []],
           VElem ''Button'' [] [icon ''svg'']],
        VElem ''div'' [] (map (ChatRow p h) (filteredChats toLowerCase p))]"

text \<open>\<open>chats.find(c => c.id === activeChat)?.title || dflt\<close>, lines 436 and 579.\<close>

definition activeTitle :: "ChatPageProps \<Rightarrow> jsstring \<Rightarrow> jsstring" where
  "activeTitle p dflt =
     (case find (\<lambda>c. Some (chat_id c) = activeChat p) (chats p) of
        None \<Rightarrow> dflt
      | Some c \<Rightarrow> if chat_title c \<noteq> [] then chat_title c else dflt)"

text \<open>The header, lines 412 to 441.\<close>

definition Header :: "ChatPageProps \<Rightarrow> Hooks \<Rightarrow> bool \<Rightarrow> VNode" where
  "Header p h sidebarOpen =
     VElem ''header'' []
       [VElem ''div'' []
          [if isMobile h
           then VElem ''Button'' [On Click (ToggleSidebar sidebarOpen)] [icon ''Menu'']
           else VNothing,
           VElem ''button'' [On Click GoLanding] [icon ''LogoImage'']],
        VElem ''div'' []
          [if isMobile h \<and> activeChat p \<noteq> None \<and> activeChat p \<noteq> Some []
           then VElem ''h1'' [] [VText (activeTitle p (js ''Chat''))]
           else VNothing,
           UserAvatarDropdown (user p)]]"

text \<open>
  The input bar, lines 827 to 869. \<open>speechError &&\<close> is the truthiness of a string
  or \<open>null\<close>.
\<close>

definition InputBar :: "ChatPageProps \<Rightarrow> SpeechToText \<Rightarrow> VNode" where
  "InputBar p sp =
     VElem ''div'' []
       [VElem ''div'' []
          [VElem ''input''
             [Ref InputRef,
              Class (if isAssistantTyping p then ''opacity-50 cursor-not-allowed'' else []),
              Placeholder (if isAssistantTyping p then js ''Assistant is typing...''
                           else js ''Ask questions, or type '' @ js [CHR 0x27, CHR ''/'', CHR 0x27]
                                @ js '' for commands''),
              Value (currentMessage p),
              On Change MessageInputChange,
              On KeyDown (MessageInputKeyDown (isAssistantTyping p)),
              Disabled (isAssistantTyping p)] [],
           VElem ''Button''
             [Class (if isRecording sp then ''animate-pulse bg-blue-700'' else []),
              Class (if isAssistantTyping p then ''opacity-50 cursor-not-allowed'' else []),
              On Click (if isRecording sp then CallStopListening else CallStartListening),
              Title (if isRecording sp then js ''Stop recording'' else js ''Start voice input''),
              Disabled (\<not> isSupported sp \<or> isAssistantTyping p)]
             [VElem ''Mic'' [Class (if isRecording sp then ''text-blue-400'' else ''text-white'')] []],
           VElem ''Button''
             [Class (if isAssistantTyping p then ''opacity-50 cursor-not-allowed'' else []),
              On Click CallOnSendMessage,
              Disabled (isAssistantTyping p \<or> trim (currentMessage p) = [])]
             [icon ''Send'']],
        if \<not> isSupported sp
        then VElem ''div'' [] [VText (js ''Voice input is not supported in this browser.'')]
        else VNothing,
        (case speechError sp of
           None \<Rightarrow> VNothing
         | Some e \<Rightarrow> if e \<noteq> [] then VElem ''div'' [] [VText e] else VNothing)]"

text \<open>The main chat area, lines 575 to 870.\<close>

definition MainArea :: "ChatPageProps \<Rightarrow> Hooks \<Rightarrow> VNode" where
  "MainArea p h =
     VElem ''main'' []
       [if \<not> isMobile h
        then VElem ''div'' [] [VElem ''h1'' [] [VText (activeTitle p (js ''Select a chat''))]]
        else VNothing,
        MessagesArea p,
        InputBar p (speech h)]"

text \<open>
  What \<open>ChatPage\<close> returns, lines 409 to 873, from its props, the values of its
  hooks, and its state \<open>sidebarOpen\<close>.
\<close>

definition ChatPage :: "(jsstring \<Rightarrow> jsstring) \<Rightarrow> ChatPageProps \<Rightarrow> Hooks \<Rightarrow> bool \<Rightarrow> VNode" where
  "ChatPage toLowerCase p h sidebarOpen =
     VElem ''div'' []
       [Header p h sidebarOpen,
        VElem ''div'' []
          [if isMobile h \<and> sidebarOpen then VElem ''div'' [On Click CloseSidebar] [] else VNothing,
           Sidebar toLowerCase p h sidebarOpen,
           MainArea p h]]"

section \<open>Event handlers\<close>

text \<open>
  What an event handler or an effect of one mounted \<open>ChatPage\<close> can change: the
  state of \<open>useState(false)\<close> (line 338), the calls made so far, and the browser.
\<close>

record Instance =
  sidebarOpen :: bool
  trace :: "Call list"
  browser :: Browser

definition call :: "Call \<Rightarrow> Instance \<Rightarrow> Instance" where
  "call c i = i\<lparr>trace := trace i @ [c]\<rparr>"

definition setSidebarOpen :: "bool \<Rightarrow> Instance \<Rightarrow> Instance" where
  "setSidebarOpen v i = i\<lparr>sidebarOpen := v\<rparr>"

text \<open>\<open>handleMobileChatSelect\<close>, lines 393 to 398, with the \<open>isMobile\<close> of its render.\<close>

definition handleMobileChatSelect :: "bool \<Rightarrow> jsstring \<Rightarrow> Instance \<Rightarrow> Instance" where
  "handleMobileChatSelect mobile chatId i =
     (let i' = call (OnChatSelect chatId) i in
      if mobile then setSidebarOpen False i' else i')"

text \<open>
  The body of each handler. Only \<open>handleClick\<close> of the contact button has a
  \<open>try\<close>; its result is passed on as it is.
\<close>

fun fire :: "(jsstring \<Rightarrow> exn option) \<Rightarrow> Handler \<Rightarrow> Event \<Rightarrow> Instance \<Rightarrow> (exn + unit) \<times> Instance" where
  "fire thr (ToggleSidebar opn) e i = (Inr (), setSidebarOpen (\<not> opn) i)"
| "fire thr CloseSidebar e i = (Inr (), setSidebarOpen False i)"
| "fire thr GoLanding e i = (Inr (), call (OnViewChange Landing) i)"
| "fire thr CallOnLogout e i = (Inr (), call OnLogout i)"
| "fire thr CallOnCreateNewChat e i = (Inr (), call OnCreateNewChat i)"
| "fire thr CreateNewChatAndClose e i = (Inr (), setSidebarOpen False (call OnCreateNewChat i))"
| "fire thr SearchInputChange e i = (Inr (), call (OnSearchChange (target_value e)) i)"
| "fire thr (SelectChat mobile chatId) e i = (Inr (), handleMobileChatSelect mobile chatId i)"
| "fire thr RenameInputChange e i = (Inr (), call (OnRenameChange (target_value e)) i)"
| "fire thr (RenameInputBlur chatId) e i = (Inr (), call (OnRenameSave chatId) i)"
| "fire thr (RenameInputKeyDown chatId) e i = (Inr (), call (OnRenameKeyDown e chatId) i)"
| "fire thr RenameInputClick e i = (Inr (), call StopPropagation i)"
| "fire thr (TitleClick chat) e i = (Inr (), call (OnStartRename chat) (call StopPropagation i))"
| "fire thr MessageInputChange e i = (Inr (), call (OnMessageChange (target_value e)) i)"
| "fire thr (MessageInputKeyDown typing) e i =
     (Inr (), if key e = js ''Enter'' \<and> \<not> typing then call OnSendMessage i else i)"
| "fire thr CallStartListening e i = (Inr (), call StartListening i)"
| "fire thr CallStopListening e i = (Inr (), call StopListening i)"
| "fire thr CallOnSendMessage e i = (Inr (), call OnSendMessage i)"
| "fire thr (ContactClick type value) e i =
     (case handleClick thr type value (browser i) of (r, b') \<Rightarrow> (r, i\<lparr>browser := b'\<rparr>))"

text \<open>
  Delivering an event to one element: the handler the element has for this kind
  of event runs. A disabled control gets no click; its other handlers still run
  when React delivers them an event. \<open>Button\<close> of \<open>components/ui\<close> is a \<open>button\<close>
  element with the props it is given.
\<close>

fun handlerFor :: "EventKind \<Rightarrow> Attr list \<Rightarrow> Handler option" where
  "handlerFor k [] = None"
| "handlerFor k (On k' h # as) = (if k = k' then Some h else handlerFor k as)"
| "handlerFor k (a # as) = handlerFor k as"

definition isDisabled :: "VNode \<Rightarrow> bool" where
  "isDisabled n \<longleftrightarrow> Disabled True \<in> set (attrs n)"

definition deliver :: "(jsstring \<Rightarrow> exn option) \<Rightarrow> VNode \<Rightarrow> EventKind \<Rightarrow> Event \<Rightarrow> Instance \<Rightarrow> (exn + unit) \<times> Instance" where
  "deliver thr n k e i =
     (if k = Click \<and> isDisabled n then (Inr (), i)
      else case handlerFor k (attrs n) of
             None \<Rightarrow> (Inr (), i)
           | Some h \<Rightarrow> fire thr h e i)"

section \<open>Effects\<close>

text \<open>
  Whether an element carrying \<open>ref={r}\<close> is in the tree: after the commit
  \<open>r.current\<close> is that element, and \<open>null\<close> when there is none.
\<close>

fun hasRef :: "RefName \<Rightarrow> VNode \<Rightarrow> bool" where
  "hasRef r (VElem tag as kids) = (Ref r \<in> set as \<or> list_ex (hasRef r) kids)"
| "hasRef r n = False"

text \<open>
  \<open>useEffect(f, deps)\<close> runs \<open>f\<close> after the first render, and after a later render
  when a dependency differs from its value at the render before. \<open>prev\<close> is the
  render before (\<open>None\<close> at the first), \<open>cur\<close> this one, \<open>deps\<close> the dependency array.
\<close>

definition depsChanged :: "('r \<Rightarrow> 'd) \<Rightarrow> 'r option \<Rightarrow> 'r \<Rightarrow> bool" where
  "depsChanged deps prev cur = (case prev of None \<Rightarrow> True | Some old \<Rightarrow> deps old \<noteq> deps cur)"

text \<open>The values of one render: props, hook values and \<open>sidebarOpen\<close>.\<close>

type_synonym Render = "ChatPageProps \<times> Hooks \<times> bool"

text \<open>The effect of lines 354 to 358 and its dependencies.\<close>

definition transcriptEffect :: "Render \<Rightarrow> Instance \<Rightarrow> Instance" where
  "transcriptEffect = (\<lambda>(p, h, opn) i.
     if isRecording (speech h) \<and> \<not> isAssistantTyping p
     then call (OnMessageChange (transcript (speech h))) i else i)"

definition transcriptDeps :: "Render \<Rightarrow> jsstring \<times> bool \<times> bool \<times> nat" where
  "transcriptDeps = (\<lambda>(p, h, opn).
     (transcript (speech h), isRecording (speech h), isAssistantTyping p, onMessageChange_ref p))"

text \<open>The effect of lines 361 to 365.\<close>

definition clearTranscriptEffect :: "Render \<Rightarrow> Instance \<Rightarrow> Instance" where
  "clearTranscriptEffect = (\<lambda>(p, h, opn) i.
     if currentMessage p = [] \<and> \<not> isRecording (speech h)
     then call (SetTranscript []) i else i)"

definition clearTranscriptDeps :: "Render \<Rightarrow> jsstring \<times> bool \<times> nat" where
  "clearTranscriptDeps = (\<lambda>(p, h, opn).
     (currentMessage p, isRecording (speech h), setTranscript_ref (speech h)))"

text \<open>The effect of lines 368 to 375; \<open>view\<close> is the tree this render committed.\<close>

definition recordingEndedEffect :: "VNode \<Rightarrow> Render \<Rightarrow> Instance \<Rightarrow> Instance" where
  "recordingEndedEffect view = (\<lambda>(p, h, opn) i.
     if \<not> isRecording (speech h) \<and> transcript (speech h) \<noteq> [] \<and> \<not> isAssistantTyping p
     then (let i' = call (OnMessageChange (transcript (speech h))) i in
           if hasRef InputRef view then call (Focus InputRef) i' else i')
     else i)"

definition recordingEndedDeps :: "Render \<Rightarrow> bool \<times> jsstring \<times> bool \<times> nat" where
  "recordingEndedDeps = (\<lambda>(p, h, opn).
     (isRecording (speech h), transcript (speech h), isAssistantTyping p, onMessageChange_ref p))"

text \<open>The effect of lines 377 to 381.\<close>

definition scrollEffect :: "VNode \<Rightarrow> Render \<Rightarrow> Instance \<Rightarrow> Instance" where
  "scrollEffect view = (\<lambda>(p, h, opn) i.
     if hasRef MessagesEndRef view then call (ScrollIntoView MessagesEndRef) i else i)"

definition scrollDeps :: "Render \<Rightarrow> nat \<times> jsstring option \<times> bool" where
  "scrollDeps = (\<lambda>(p, h, opn). (messages_ref p, activeChat p, isAssistantTyping p))"

text \<open>The effect of lines 383 to 387.\<close>

definition renameFocusEffect :: "VNode \<Rightarrow> Render \<Rightarrow> Instance \<Rightarrow> Instance" where
  "renameFocusEffect view = (\<lambda>(p, h, opn) i.
     if renamingChatId p \<noteq> None \<and> renamingChatId p \<noteq> Some [] \<and> hasRef RenameInputRef view
     then call (Focus RenameInputRef) i else i)"

definition renameFocusDeps :: "Render \<Rightarrow> jsstring option" where
  "renameFocusDeps = (\<lambda>(p, h, opn). renamingChatId p)"

text \<open>
  The effects of one commit, in the order of the source. The sixth effect
  (lines 401 to 407) only installs a listener; \<open>documentClick\<close> is that listener
  as installed by the render \<open>(p, h, opn)\<close>.
\<close>

definition runEffect :: "(Render \<Rightarrow> 'd) \<Rightarrow> (Render \<Rightarrow> Instance \<Rightarrow> Instance) \<Rightarrow> Render option \<Rightarrow> Render \<Rightarrow> Instance \<Rightarrow> Instance" where
  "runEffect deps f prev cur i = (if depsChanged deps prev cur then f cur i else i)"

definition runEffects :: "(jsstring \<Rightarrow> jsstring) \<Rightarrow> Render option \<Rightarrow> Render \<Rightarrow> Instance \<Rightarrow> Instance" where
  "runEffects toLowerCase prev cur i =
     (let view = (case cur of (p, h, opn) \<Rightarrow> ChatPage toLowerCase p h opn);
          i1 = runEffect transcriptDeps transcriptEffect prev cur i;
          i2 = runEffect clearTranscriptDeps clearTranscriptEffect prev cur i1;
          i3 = runEffect recordingEndedDeps (recordingEndedEffect view) prev cur i2;
          i4 = runEffect scrollDeps (scrollEffect view) prev cur i3
      in runEffect renameFocusDeps (renameFocusEffect view) prev cur i4)"


section \<open>Reading the element tree\<close>

text \<open>
  The node reached from \<open>n\<close> by taking, at each step, the child with the given
  index; \<open>VNothing\<close> when there is no such child.
\<close>

fun nodeAt :: "nat list \<Rightarrow> VNode \<Rightarrow> VNode" where
  "nodeAt [] n = n"
| "nodeAt (k # ks) n = (if k < length (children n) then nodeAt ks (children n ! k) else VNothing)"

text \<open>The tree with the node at a path replaced; unchanged when the path leaves the tree.\<close>

fun replaceAt :: "nat list \<Rightarrow> VNode \<Rightarrow> VNode \<Rightarrow> VNode" where
  "replaceAt [] new n = new"
| "replaceAt (k # ks) new (VElem tag as kids) =
     (if k < length kids then VElem tag as (kids[k := replaceAt ks new (kids ! k)])
      else VElem tag as kids)"
| "replaceAt (k # ks) new n = n"

text \<open>
  Where the parts of the page are: the rows of the chat list, the count badge,
  the supplier section of the message with index \<open>j\<close>, the two slots under the
  input bar.
\<close>

definition chatListPath :: "nat list" where
  "chatListPath = [1, 1, 5]"

definition countBadgePath :: "nat list" where
  "countBadgePath = [1, 1, 3, 0, 1, 0]"

definition supplierSectionPath :: "nat \<Rightarrow> nat list" where
  "supplierSectionPath j = [1, 2, 1, 0, j, 1, 1]"

definition unsupportedSlotPath :: "nat list" where
  "unsupportedSlotPath = [1, 2, 2, 1]"

definition speechErrorSlotPath :: "nat list" where
  "speechErrorSlotPath = [1, 2, 2, 2]"

text \<open>Inside a supplier section: the header paragraph, the cards, and the title of a card.\<close>

definition sectionHeaderText :: "VNode \<Rightarrow> VNode list" where
  "sectionHeaderText section = children (nodeAt [0, 1, 1] section)"

definition sectionCards :: "VNode \<Rightarrow> VNode list" where
  "sectionCards section = children (nodeAt [1] section)"

definition cardTitle :: "VNode \<Rightarrow> VNode" where
  "cardTitle n = nodeAt [0, 0, 0, 0, 0] n"

text \<open>Inside a chat row: the title or the rename input.\<close>

definition rowTitleSlot :: "VNode \<Rightarrow> VNode" where
  "rowTitleSlot row = nodeAt [0, 0, 0] row"

text \<open>The URLs of the \<open>window.open\<close> calls made between two states of the browser.\<close>

definition opened :: "Browser \<Rightarrow> Browser \<Rightarrow> jsstring list" where
  "opened b b' = map fst (drop (length (openCalls b)) (openCalls b'))"

text \<open>The calls made between two states of an instance.\<close>

definition newCalls :: "Instance \<Rightarrow> Instance \<Rightarrow> Call list" where
  "newCalls i i' = drop (length (trace i)) (trace i')"

fun isOnMessageChange :: "Call \<Rightarrow> bool" where
  "isOnMessageChange (OnMessageChange t) = True"
| "isOnMessageChange c = False"

section \<open>Events in the tree\<close>

text \<open>
  What one element on the way of an event does: it runs its own handler, and the
  result tells whether the event goes on, that is, whether the handler did not
  call \<open>e.stopPropagation()\<close>.
\<close>

definition handle :: "(jsstring \<Rightarrow> exn option) \<Rightarrow> EventKind \<Rightarrow> Event \<Rightarrow> VNode \<Rightarrow> Instance \<Rightarrow> (exn + bool) \<times> Instance" where
  "handle thr k e n i =
     (case deliver thr n k e i of
        (Inl x, i') \<Rightarrow> (Inl x, i')
      | (Inr u, i') \<Rightarrow> (Inr (StopPropagation \<notin> set (newCalls i i')), i'))"

text \<open>
  An event has a target, the node at a path from the root, and bubbles from the
  target up to the root: the target handles it first, then each of its ancestors
  in turn, until a handler stops the propagation. A click is not dispatched at
  all when the target is a disabled control or lies inside one, and there is no
  event when the path leaves the tree. The result \<open>Inr True\<close> says that the event
  went through the root, on its way to the document.
\<close>

fun dispatch :: "(jsstring \<Rightarrow> exn option) \<Rightarrow> EventKind \<Rightarrow> Event \<Rightarrow> nat list \<Rightarrow> VNode \<Rightarrow> Instance \<Rightarrow> (exn + bool) \<times> Instance" where
  "dispatch thr k e [] n i =
     (if k = Click \<and> isDisabled n then (Inr False, i) else handle thr k e n i)"
| "dispatch thr k e (c # cs) n i =
     (if k = Click \<and> isDisabled n then (Inr False, i)
      else if c < length (children n) then
        (case dispatch thr k e cs (children n ! c) i of
           (Inr True, i') \<Rightarrow> handle thr k e n i'
         | r \<Rightarrow> r)
      else (Inr False, i))"






text \<open>
  The input bar and its controls in the page, in the order of lines 829, 840 and
  852: the text input, the microphone button and the send button; and the paths
  of every place of the input bar: the bar, the row of controls, the controls
  and the icons of the two buttons, and the two places for the speech messages.
\<close>

definition inputBarPath :: "nat list" where
  "inputBarPath = [1, 2, 2]"

definition messageInputPath :: "nat list" where
  "messageInputPath = inputBarPath @ [0, 0]"

definition micButtonPath :: "nat list" where
  "micButtonPath = inputBarPath @ [0, 1]"

definition sendButtonPath :: "nat list" where
  "sendButtonPath = inputBarPath @ [0, 2]"

definition inputBarTargets :: "nat list list" where
  "inputBarTargets =
     map ((@) inputBarPath)
       [[], [0], [0, 0], [0, 1], [0, 1, 0], [0, 2], [0, 2, 0], [1], [1, 0], [2], [2, 0]]"

text \<open>
  Whether no element of a tree that can get an event of kind \<open>k\<close> has one of the
  two handlers that call \<open>onSendMessage\<close>: the send button's, and the key handler
  of the message input rendered while the assistant was not typing.
\<close>

fun quiet :: "EventKind \<Rightarrow> VNode \<Rightarrow> bool" where
  "quiet k (VElem tag as kids) =
     ((k = Click \<and> Disabled True \<in> set as) \<or>
      (handlerFor k as \<noteq> Some CallOnSendMessage \<and>
       handlerFor k as \<noteq> Some (MessageInputKeyDown False) \<and>
       list_all (quiet k) kids))"
| "quiet k n = True"

text \<open>
  What \<open>the chats whose lowercased title contains the lowercased search string,
  in the order of the chats list\<close> says, with the containment of lists of the
  library.
\<close>

definition filteredChats_spec :: "(jsstring \<Rightarrow> jsstring) \<Rightarrow> ChatPageProps \<Rightarrow> Chat list" where
  "filteredChats_spec toLowerCase p =
     filter (\<lambda>chat. sublist (toLowerCase (search p)) (toLowerCase (chat_title chat))) (chats p)"

section \<open>Example data\<close>

text \<open>
  The suppliers of the example in the README, a conversation that shows them,
  and the ASCII part of \<open>toLowerCase\<close>.
\<close>

definition toLowerASCII :: "jsstring \<Rightarrow> jsstring" where
  "toLowerASCII s = map (\<lambda>c. if 0x41 \<le> c \<and> c \<le> 0x5A then c + 0x20 else c) s"

definition techSource :: Supplier where
  "techSource =
     \<lparr>supplier_id = js ''s1'', supplier_name = js ''TechSource Electronics'',
      supplier_fields =
        [\<lparr>field_label = js ''Location'', field_value = js ''Shenzhen, China'', field_type = LocationField\<rparr>,
         \<lparr>field_label = js ''Rating'', field_value = js ''4.8'', field_type = RatingField\<rparr>,
         \<lparr>field_label = js ''Phone'', field_value = js ''+86-755-xxxx'', field_type = TextField\<rparr>,
         \<lparr>field_label = js ''Email'', field_value = js ''tech@techsource.com'', field_type = TextField\<rparr>]\<rparr>"

definition pacificComponents :: Supplier where
  "pacificComponents =
     \<lparr>supplier_id = js ''s2'', supplier_name = js ''Pacific Components'',
      supplier_fields =
        [\<lparr>field_label = js ''Location'', field_value = js ''Taipei, Taiwan'', field_type = LocationField\<rparr>,
         \<lparr>field_label = js ''Price Range'', field_value = js ''Premium'', field_type = PriceField\<rparr>,
         \<lparr>field_label = js ''Website'', field_value = js ''www.pacificcomp.tw'', field_type = TextField\<rparr>]\<rparr>"

definition exampleMessages :: "Message list" where
  "exampleMessages =
     [\<lparr>message_id = js ''m1'', message_type = js ''user'',
       message_content = js ''I need electronics manufacturers in Asia'',
       message_timestamp = 0, message_suppliers = None\<rparr>,
      \<lparr>message_id = js ''m2'', message_type = js ''assistant'',
       message_content = js ''Here are the matches'',
       message_timestamp = 1, message_suppliers = Some [techSource, pacificComponents]\<rparr>]"

definition exampleChats :: "Chat list" where
  "exampleChats =
     [\<lparr>chat_id = js ''c1'', chat_title = js ''Electronics in Asia'', chat_messages = exampleMessages\<rparr>,
      \<lparr>chat_id = js ''c2'', chat_title = js ''Packaging'', chat_messages = []\<rparr>,
      \<lparr>chat_id = js ''c3'', chat_title = js ''Asian textiles'', chat_messages = []\<rparr>]"

definition exampleProps :: ChatPageProps where
  "exampleProps =
     \<lparr>user = \<lparr>user_name = js ''Ada Lovelace'', user_email = js ''ada@example.com'',
               user_avatar = None, user_uid = js ''u1''\<rparr>,
      chats = exampleChats, activeChat = Some (js ''c1''), messages = exampleMessages,
      currentMessage = js ''  '', search = js ''ASIA'', isAssistantTyping = False,
      renamingChatId = None, renameValue = [], onMessageChange_ref = 0, messages_ref = 0\<rparr>"

definition exampleSpeech :: SpeechToText where
  "exampleSpeech =
     \<lparr>isSupported = True, isRecording = False, transcript = js ''hello'',
      speechError = None, setTranscript_ref = 0\<rparr>"

definition exampleHooks :: Hooks where
  "exampleHooks = \<lparr>isMobile = True, speech = exampleSpeech\<rparr>"

definition exampleInstance :: Instance where
  "exampleInstance =
     \<lparr>sidebarOpen = True, trace = [], browser = \<lparr>openCalls = [], consoleErrors = []\<rparr>\<rparr>"

definition exampleEvent :: Event where
  "exampleEvent = \<lparr>target_value = js ''x'', key = js ''Enter''\<rparr>"

section \<open>Facts about the string functions\<close>

lemma startsWith_prefix: "startsWith s p \<longleftrightarrow> prefix p s"
  by (induction s p rule: startsWith.induct) auto

lemma includes_js_sublist: "includes_js s t \<longleftrightarrow> sublist t s"
  by (induction s) (auto simp: startsWith_prefix sublist_Cons_right)

lemma includes_js_single: "includes_js s [c] \<longleftrightarrow> c \<in> set s"
  by (induction s) auto

lemma isDigit_iff: "isDigit c \<longleftrightarrow> c \<in> of_char ` set ''0123456789''"
proof -
  have "isDigit c \<longleftrightarrow> 48 \<le> unat c \<and> unat c \<le> 57"
    by (simp add: isDigit_def word_le_nat_alt)
  also have "\<dots> \<longleftrightarrow> unat c \<in> {48, 49, 50, 51, 52, 53, 54, 55, 56, 57}"
    by simp presburger
  also have "\<dots> \<longleftrightarrow> c \<in> {48, 49, 50, 51, 52, 53, 54, 55, 56, 57}"
    by (simp add: word_unat_eq_iff)
  finally show ?thesis by simp
qed

lemma matchesNonPhone_iff: "matchesNonPhone c \<longleftrightarrow> \<not> keptInPhone c"
  by (simp add: matchesNonPhone_def keptInPhone_def isDigit_iff)

lemma replaceAllWithEmpty_filter: "replaceAllWithEmpty m s = filter (\<lambda>c. \<not> m c) s"
  by (induction s) auto

lemma startsWith_append: "startsWith (p @ s) p"
  by (simp add: startsWith_prefix)

section \<open>ContactButton: the link and the click\<close>

text \<open>
  C9. \<open>getHref\<close> returns a value for every type and every string, and the value is
  the one described: with \<open>v\<close> the trimmed value, for an email \<open>mailto:\<close> and \<open>v\<close> when
  \<open>v\<close> contains \<open>@\<close>; for a phone \<open>tel:\<close> and \<open>r\<close>, the digits and \<open>+ ( ) -\<close> of \<open>v\<close> in
  order, when \<open>r\<close> is not empty; for a website \<open>v\<close> itself when it starts with
  \<open>http://\<close> or \<open>https://\<close>, and \<open>https://\<close> and \<open>v\<close> when \<open>v\<close> contains a dot; \<open>#\<close> in
  every other case.
\<close>

theorem getHref_as_described: "getHref type value = getHref_spec type value"
  by (cases type)
     (simp_all add: getHref_def getHref_spec_def Let_def startsWith_prefix
        includes_js_single js_def replaceAllWithEmpty_filter matchesNonPhone_iff)

theorem getHref_as_described_witness:
  "getHref Phone (js '' +86 (755) 12-34 ext. 5 '') = js ''tel:+86(755)12-345''"
  using getHref_as_described [of Phone "js '' +86 (755) 12-34 ext. 5 ''"]
  by (simp add: getHref_spec_def js_def trim_def isWhiteSpace_def keptInPhone_def)

lemma getHref_link:
  "getHref type value = js ''#'' \<or>
   startsWith (getHref type value) (js ''mailto:'') \<or>
   startsWith (getHref type value) (js ''tel:'') \<or>
   startsWith (getHref type value) (js ''http://'') \<or>
   startsWith (getHref type value) (js ''https://'')"
  by (cases type) (simp_all add: getHref_def Let_def startsWith_append)

lemma handleClick_result:
  "handleClick thr type value b =
     (Inr (),
      if getHref type value = js ''#'' then b
      else case thr (getHref type value) of
             None \<Rightarrow> b\<lparr>openCalls := openCalls b @ [(getHref type value, js ''_blank'')]\<rparr>
           | Some e \<Rightarrow>
               b\<lparr>openCalls := openCalls b @ [(getHref type value, js ''_blank'')],
                 consoleErrors := consoleErrors b @ [(js ''Error opening contact link:'', e)]\<rparr>)"
proof -
  have ne: "getHref type value \<noteq> []"
    by (cases type) (auto simp: getHref_def Let_def js_def startsWith_prefix)
  show ?thesis
    by (simp add: handleClick_def tryCatch_def window_open_def console_error_def Let_def ne
        split: option.split)
qed

text \<open>
  C1, as the code has it. Whatever the type, the value and the browser, the click
  handler returns normally, also when \<open>window.open\<close> throws; it opens nothing when
  the link is \<open>#\<close>; and every URL it passes to \<open>window.open\<close> starts with \<open>mailto:\<close>,
  \<open>tel:\<close>, \<open>http://\<close> or \<open>https://\<close>.
\<close>

theorem handleClick_links_and_catch:
  "fst (handleClick thr type value b) = Inr () \<and>
   (getHref type value = js ''#'' \<longrightarrow> snd (handleClick thr type value b) = b) \<and>
   (\<forall>url \<in> set (opened b (snd (handleClick thr type value b))).
      startsWith url (js ''mailto:'') \<or> startsWith url (js ''tel:'') \<or>
      startsWith url (js ''http://'') \<or> startsWith url (js ''https://''))"
  using getHref_link [of type "value"]
  by (auto simp: handleClick_result opened_def split: option.splits)

theorem handleClick_links_and_catch_witness:
  "(fst (handleClick (\<lambda>url. Some (Exn (js ''blocked''))) Website (js '' www.pacificcomp.tw '')
          \<lparr>openCalls = [], consoleErrors = []\<rparr>) = Inr () \<and>
    js ''https://www.pacificcomp.tw'' \<in>
      set (opened \<lparr>openCalls = [], consoleErrors = []\<rparr>
            (snd (handleClick (\<lambda>url. Some (Exn (js ''blocked''))) Website (js '' www.pacificcomp.tw '')
                   \<lparr>openCalls = [], consoleErrors = []\<rparr>))) \<and>
    startsWith (js ''https://www.pacificcomp.tw'') (js ''https://'')) \<and>
   (getHref Email (js ''sales at electroasia'') = js ''#'' \<and>
    snd (handleClick (\<lambda>url. None) Email (js ''sales at electroasia'')
           \<lparr>openCalls = [], consoleErrors = []\<rparr>) = \<lparr>openCalls = [], consoleErrors = []\<rparr>)"
proof -
  let ?b = "\<lparr>openCalls = [], consoleErrors = []\<rparr>"
  have href: "getHref Website (js '' www.pacificcomp.tw '') = js ''https://www.pacificcomp.tw''"
    by (simp add: getHref_def js_def trim_def isWhiteSpace_def)
  have mem: "js ''https://www.pacificcomp.tw'' \<in>
     set (opened ?b
           (snd (handleClick (\<lambda>url. Some (Exn (js ''blocked''))) Website (js '' www.pacificcomp.tw '') ?b)))"
    by (simp add: handleClick_result href opened_def) (simp add: js_def)
  have pre: "startsWith (js ''https://www.pacificcomp.tw'') (js ''https://'')"
    by (simp add: js_def)
  have none: "getHref Email (js ''sales at electroasia'') = js ''#''"
    by (simp add: getHref_def js_def trim_def isWhiteSpace_def)
  from mem pre none
    handleClick_links_and_catch [of "\<lambda>url. Some (Exn (js ''blocked''))" Website
      "js '' www.pacificcomp.tw ''" ?b]
    handleClick_links_and_catch [of "\<lambda>url. None" Email "js ''sales at electroasia''" ?b]
  show ?thesis by blast
qed

text \<open>
  C1, as it is written, fails: for a website whose value starts with \<open>http://\<close>
  the handler passes that URL to \<open>window.open\<close>, and it is none of \<open>mailto:\<close>,
  \<open>tel:\<close> and \<open>https:\<close>.
\<close>

theorem handleClick_opens_http_link:
  "opened \<lparr>openCalls = [], consoleErrors = []\<rparr>
     (snd (handleClick (\<lambda>url. None) Website (js ''http://example.com'')
            \<lparr>openCalls = [], consoleErrors = []\<rparr>)) = [js ''http://example.com''] \<and>
   \<not> startsWith (js ''http://example.com'') (js ''mailto:'') \<and>
   \<not> startsWith (js ''http://example.com'') (js ''tel:'') \<and>
   \<not> startsWith (js ''http://example.com'') (js ''https:'')"
proof -
  have href: "getHref Website (js ''http://example.com'') = js ''http://example.com''"
    by (simp add: getHref_def js_def trim_def isWhiteSpace_def)
  show ?thesis
    by (simp add: handleClick_result href opened_def) (simp add: js_def)
qed

section \<open>Where the parts of the page are\<close>

lemma nodeAt_Nothing: "nodeAt ks VNothing = VNothing"
  by (cases ks) simp_all

lemma nodeAt_append: "nodeAt (ks @ ls) n = nodeAt ls (nodeAt ks n)"
  by (induction ks arbitrary: n) (simp_all add: nodeAt_Nothing)

lemma page_chatList:
  "nodeAt chatListPath (ChatPage toLowerCase p h opn) =
     VElem ''div'' [] (map (ChatRow p h) (filteredChats toLowerCase p))"
  by (simp add: chatListPath_def ChatPage_def Sidebar_def)

lemma page_countBadge:
  "nodeAt countBadgePath (ChatPage toLowerCase p h opn) = VNum (length (chats p))"
  by (simp add: countBadgePath_def ChatPage_def Sidebar_def)

lemma page_inputBar:
  "nodeAt [1, 2, 2] (ChatPage toLowerCase p h opn) = InputBar p (speech h)"
  by (simp add: ChatPage_def MainArea_def)

lemma page_message:
  "j < length (messages p) \<Longrightarrow>
   nodeAt [1, 2, 1, 0, j] (ChatPage toLowerCase p h opn) = MessageItem (user p) (messages p ! j)"
  by (auto simp add: ChatPage_def MainArea_def MessagesArea_def nth_append)

lemma page_supplierSection:
  assumes "j < length (messages p)"
  shows "nodeAt (supplierSectionPath j) (ChatPage toLowerCase p h opn) =
         SupplierSection (messages p ! j)"
proof -
  have "supplierSectionPath j = [1, 2, 1, 0, j] @ [1, 1]"
    by (simp add: supplierSectionPath_def)
  then show ?thesis
    by (simp only: nodeAt_append page_message [OF assms]) (simp add: MessageItem_def)
qed

lemma page_unsupportedSlot:
  "nodeAt unsupportedSlotPath (ChatPage toLowerCase p h opn) =
     (if \<not> isSupported (speech h)
      then VElem ''div'' [] [VText (js ''Voice input is not supported in this browser.'')]
      else VNothing)"
  by (simp add: unsupportedSlotPath_def ChatPage_def MainArea_def InputBar_def)

lemma page_speechErrorSlot:
  "nodeAt speechErrorSlotPath (ChatPage toLowerCase p h opn) =
     (case speechError (speech h) of
        None \<Rightarrow> VNothing
      | Some e \<Rightarrow> if e \<noteq> [] then VElem ''div'' [] [VText e] else VNothing)"
  by (simp add: speechErrorSlotPath_def ChatPage_def MainArea_def InputBar_def)

lemma page_without_speechError:
  "replaceAt speechErrorSlotPath VNothing
     (ChatPage toLowerCase p (h\<lparr>speech := (speech h)\<lparr>speechError := e'\<rparr>\<rparr>) opn) =
   replaceAt speechErrorSlotPath VNothing (ChatPage toLowerCase p h opn)"
  by (simp add: speechErrorSlotPath_def ChatPage_def MainArea_def InputBar_def Header_def
      Sidebar_def ChatRow_def)

section \<open>Events in the page\<close>

lemma handle_eq:
  "handle thr k e n i =
     (if k = Click \<and> isDisabled n then (Inr True, i)
      else case handlerFor k (attrs n) of
             None \<Rightarrow> (Inr True, i)
           | Some hdl \<Rightarrow>
               (case fire thr hdl e i of
                  (Inl x, i') \<Rightarrow> (Inl x, i')
                | (Inr u, i') \<Rightarrow> (Inr (StopPropagation \<notin> set (newCalls i i')), i')))"
  by (simp add: handle_def deliver_def newCalls_def split: option.split)

lemma dispatch_plain:
  "handlerFor k as = None \<Longrightarrow> Disabled True \<notin> set as \<Longrightarrow> c < length kids \<Longrightarrow>
   dispatch thr k e (c # cs) (VElem tag as kids) i = dispatch thr k e cs (kids ! c) i"
  by (simp add: handle_eq isDisabled_def split: prod.split sum.split bool.split)


lemma dispatch_inputBar:
  "dispatch thr k e (inputBarPath @ sub) (ChatPage toLowerCase p h opn) i =
   dispatch thr k e sub (InputBar p (speech h)) i"
  by (simp add: inputBarPath_def ChatPage_def MainArea_def dispatch_plain del: dispatch.simps)

text \<open>A handler only adds calls, and only two handlers add a call of \<open>onSendMessage\<close>.\<close>

lemma fire_calls:
  "\<exists>cs. trace (snd (fire thr hdl e i)) = trace i @ cs \<and>
        (OnSendMessage \<in> set cs \<longrightarrow> hdl = CallOnSendMessage \<or> hdl = MessageInputKeyDown False)"
  by (cases hdl)
     (auto simp: call_def setSidebarOpen_def handleMobileChatSelect_def Let_def
        split: prod.splits)

lemma handle_calls:
  assumes "k = Click \<and> isDisabled n \<or>
           handlerFor k (attrs n) \<noteq> Some CallOnSendMessage \<and>
           handlerFor k (attrs n) \<noteq> Some (MessageInputKeyDown False)"
  shows "\<exists>cs. trace (snd (handle thr k e n i)) = trace i @ cs \<and> OnSendMessage \<notin> set cs"
proof (cases "k = Click \<and> isDisabled n")
  case True
  then show ?thesis by (simp add: handle_eq)
next
  case False
  show ?thesis
  proof (cases "handlerFor k (attrs n)")
    case None
    with False show ?thesis by (simp add: handle_eq)
  next
    case (Some hdl)
    with False assms have ok: "hdl \<noteq> CallOnSendMessage" "hdl \<noteq> MessageInputKeyDown False"
      by auto
    from fire_calls [of thr hdl e i] obtain cs
      where cs: "trace (snd (fire thr hdl e i)) = trace i @ cs"
        and s: "OnSendMessage \<in> set cs \<longrightarrow> hdl = CallOnSendMessage \<or> hdl = MessageInputKeyDown False"
      by blast
    from s ok have "OnSendMessage \<notin> set cs" by blast
    with cs False Some show ?thesis
      by (auto simp add: handle_eq split: prod.splits sum.splits)
  qed
qed

lemma dispatch_calls:
  "quiet k n \<Longrightarrow>
   \<exists>cs. trace (snd (dispatch thr k e path n i)) = trace i @ cs \<and> OnSendMessage \<notin> set cs"
proof (induction path arbitrary: n i)
  case Nil
  show ?case
  proof (cases "k = Click \<and> isDisabled n")
    case True
    then show ?thesis by simp
  next
    case False
    with Nil have "handlerFor k (attrs n) \<noteq> Some CallOnSendMessage \<and>
           handlerFor k (attrs n) \<noteq> Some (MessageInputKeyDown False)"
      by (cases n) (auto simp: isDisabled_def)
    then show ?thesis
      using False handle_calls [of k n thr e i] by simp
  qed
next
  case (Cons c cs)
  show ?case
  proof (cases "(k = Click \<and> isDisabled n) \<or> \<not> c < length (children n)")
    case True
    then show ?thesis by auto
  next
    case False
    then have c: "c < length (children n)" and en: "\<not> (k = Click \<and> isDisabled n)"
      by auto
    from c obtain tag as kids where n: "n = VElem tag as kids"
      by (cases n) auto
    with Cons.prems en c have q: "quiet k (kids ! c)"
      and hn: "handlerFor k (attrs n) \<noteq> Some CallOnSendMessage \<and>
           handlerFor k (attrs n) \<noteq> Some (MessageInputKeyDown False)"
      by (auto simp: isDisabled_def list_all_length)
    from Cons.IH [OF q, of i] obtain xs
      where xs: "trace (snd (dispatch thr k e cs (kids ! c) i)) = trace i @ xs"
        and nx: "OnSendMessage \<notin> set xs"
      by blast
    obtain r i' where d: "dispatch thr k e cs (kids ! c) i = (r, i')"
      by (cases "dispatch thr k e cs (kids ! c) i")
    show ?thesis
    proof (cases "r = Inr True")
      case True
      from handle_calls [of k n thr e i'] hn obtain ys
        where ys: "trace (snd (handle thr k e n i')) = trace i' @ ys" and ny: "OnSendMessage \<notin> set ys"
        by blast
      from xs d have "trace i' = trace i @ xs" by simp
      with ys have "trace (snd (handle thr k e n i')) = trace i @ (xs @ ys)" by simp
      moreover from nx ny have "OnSendMessage \<notin> set (xs @ ys)" by simp
      ultimately show ?thesis
        using True d c en n by auto
    next
      case False
      then have "dispatch thr k e (c # cs) n i = (r, i')"
        using d c en n by (auto split: sum.splits bool.splits)
      with xs nx d show ?thesis by auto
    qed
  qed
qed










section \<open>The sidebar\<close>

lemma filteredChats_as_described:
  "filteredChats toLowerCase p = filteredChats_spec toLowerCase p"
  by (simp add: filteredChats_def filteredChats_spec_def includes_js_sublist)

text \<open>
  C8. Whatever the chats and the search string, the chat list has one row for
  each of the chats whose lowercased title contains the lowercased search string
  as a contiguous part, in the order of the chats list: the row with index \<open>k\<close> is
  the row of the matching chat with index \<open>k\<close>, its click handler selects the id of
  that chat, it shows the number of messages of that chat and, unless that chat
  is being renamed, its title. The badge beside \<open>CHATS\<close> shows the length of the
  whole chats list.
\<close>

theorem sidebar_lists_matching_chats:
  "length (children (nodeAt chatListPath (ChatPage toLowerCase p h opn))) =
     length (filteredChats_spec toLowerCase p) \<and>
   (\<forall>k < length (filteredChats_spec toLowerCase p).
      children (nodeAt chatListPath (ChatPage toLowerCase p h opn)) ! k =
        ChatRow p h (filteredChats_spec toLowerCase p ! k) \<and>
      handlerFor Click (attrs (children (nodeAt chatListPath (ChatPage toLowerCase p h opn)) ! k)) =
        Some (SelectChat (isMobile h) (chat_id (filteredChats_spec toLowerCase p ! k))) \<and>
      nodeAt [0, 1] (children (nodeAt chatListPath (ChatPage toLowerCase p h opn)) ! k) =
        VElem ''span'' []
          [VNum (length (chat_messages (filteredChats_spec toLowerCase p ! k))),
           VText (js '' messages'')] \<and>
      (renamingChatId p \<noteq> Some (chat_id (filteredChats_spec toLowerCase p ! k)) \<longrightarrow>
         nodeAt [0, 0] (rowTitleSlot (children (nodeAt chatListPath (ChatPage toLowerCase p h opn)) ! k)) =
           VText (chat_title (filteredChats_spec toLowerCase p ! k)))) \<and>
   nodeAt countBadgePath (ChatPage toLowerCase p h opn) = VNum (length (chats p))"
  by (simp add: page_chatList page_countBadge filteredChats_as_described)
     (simp add: ChatRow_def rowTitleSlot_def)

theorem sidebar_lists_matching_chats_witness:
  "filteredChats_spec toLowerASCII exampleProps = [exampleChats ! 0, exampleChats ! 2] \<and>
   length (children (nodeAt chatListPath (ChatPage toLowerASCII exampleProps exampleHooks True))) = 2 \<and>
   handlerFor Click
     (attrs (children (nodeAt chatListPath (ChatPage toLowerASCII exampleProps exampleHooks True)) ! 1)) =
     Some (SelectChat True (js ''c3'')) \<and>
   renamingChatId exampleProps \<noteq> Some (js ''c3'') \<and>
   nodeAt [0, 0]
     (rowTitleSlot (children (nodeAt chatListPath (ChatPage toLowerASCII exampleProps exampleHooks True)) ! 1)) =
     VText (js ''Asian textiles'') \<and>
   nodeAt countBadgePath (ChatPage toLowerASCII exampleProps exampleHooks True) = VNum 3"
proof -
  have f: "filteredChats_spec toLowerASCII exampleProps = [exampleChats ! 0, exampleChats ! 2]"
    by (simp add: filteredChats_as_described [symmetric] filteredChats_def exampleProps_def
        exampleChats_def toLowerASCII_def js_def)
  have c: "chat_id (exampleChats ! 2) = js ''c3''" "chat_title (exampleChats ! 2) = js ''Asian textiles''"
    "isMobile exampleHooks" "renamingChatId exampleProps \<noteq> Some (js ''c3'')"
    "length (chats exampleProps) = 3"
    by (simp_all add: exampleChats_def exampleHooks_def exampleProps_def)
  have k: "1 < length (filteredChats_spec toLowerASCII exampleProps)"
    by (simp add: f)
  note t = sidebar_lists_matching_chats [of toLowerASCII exampleProps exampleHooks True]
  from t have l: "length (children (nodeAt chatListPath (ChatPage toLowerASCII exampleProps exampleHooks True))) =
     length (filteredChats_spec toLowerASCII exampleProps)"
    and b: "nodeAt countBadgePath (ChatPage toLowerASCII exampleProps exampleHooks True) =
     VNum (length (chats exampleProps))"
    by blast+
  from t k have hd: "handlerFor Click
     (attrs (children (nodeAt chatListPath (ChatPage toLowerASCII exampleProps exampleHooks True)) ! 1)) =
     Some (SelectChat (isMobile exampleHooks) (chat_id (filteredChats_spec toLowerASCII exampleProps ! 1)))"
    by blast
  have r: "renamingChatId exampleProps \<noteq> Some (chat_id (filteredChats_spec toLowerASCII exampleProps ! 1))"
    by (simp add: f c)
  from t k r have ti: "nodeAt [0, 0]
     (rowTitleSlot (children (nodeAt chatListPath (ChatPage toLowerASCII exampleProps exampleHooks True)) ! 1)) =
     VText (chat_title (filteredChats_spec toLowerASCII exampleProps ! 1))"
    by blast
  have n: "filteredChats_spec toLowerASCII exampleProps ! 1 = exampleChats ! 2"
    "length (filteredChats_spec toLowerASCII exampleProps) = 2"
    by (simp_all add: f)
  from f l b hd ti show ?thesis
    by (simp only: n) (simp add: c)
qed




section \<open>Supplier results\<close>

lemma SupplierSection_some:
  "message_suppliers m = Some suppliers \<Longrightarrow> suppliers \<noteq> [] \<Longrightarrow>
   SupplierSection m =
     VElem ''div'' []
       [VElem ''div'' []
          [VElem ''div'' [] [icon ''Building''],
           VElem ''div'' []
             [VElem ''h3'' [] [VText (js ''Top Supplier Matches'')],
              VElem ''p'' []
                [VText (js ''Found ''), VNum (length suppliers),
                 VText (js '' suppliers matching your criteria'')]]],
        VElem ''div'' [] (map SupplierCard suppliers)]"
  by (simp add: SupplierSection_def)

lemma cardTitle_SupplierCard: "cardTitle (SupplierCard s) = VText (supplier_name s)"
  by (simp add: cardTitle_def SupplierCard_def)

text \<open>
  C3. For the message with index \<open>j\<close> of the conversation: when its suppliers list
  is present and not empty, the page has the supplier section of that message,
  whose header reads \<open>Found N suppliers matching your criteria\<close> with \<open>N\<close> the length
  of the list, and whose cards are the cards of the suppliers, one for each, in
  the order of the list (the card with index \<open>k\<close> is titled with the name of the
  supplier with index \<open>k\<close>); when the message has no suppliers field or an empty
  list, nothing is rendered in the place of the section.
\<close>

theorem supplier_section_rendering:
  "j < length (messages p) \<Longrightarrow>
   (\<forall>suppliers.
      message_suppliers (messages p ! j) = Some suppliers \<and> suppliers \<noteq> [] \<longrightarrow>
        sectionHeaderText (nodeAt (supplierSectionPath j) (ChatPage toLowerCase p h opn)) =
          [VText (js ''Found ''), VNum (length suppliers),
           VText (js '' suppliers matching your criteria'')] \<and>
        sectionCards (nodeAt (supplierSectionPath j) (ChatPage toLowerCase p h opn)) =
          map SupplierCard suppliers \<and>
        (\<forall>k < length suppliers.
           cardTitle (sectionCards (nodeAt (supplierSectionPath j) (ChatPage toLowerCase p h opn)) ! k) =
             VText (supplier_name (suppliers ! k)))) \<and>
   (message_suppliers (messages p ! j) = None \<or> message_suppliers (messages p ! j) = Some [] \<longrightarrow>
      nodeAt (supplierSectionPath j) (ChatPage toLowerCase p h opn) = VNothing)"
  by (auto simp: page_supplierSection SupplierSection_some sectionHeaderText_def
      sectionCards_def cardTitle_SupplierCard)
     (simp_all add: SupplierSection_def)

theorem supplier_section_rendering_witness:
  "(1 < length (messages exampleProps) \<and>
    message_suppliers (messages exampleProps ! 1) = Some [techSource, pacificComponents] \<and>
    sectionHeaderText (nodeAt (supplierSectionPath 1) (ChatPage toLowerASCII exampleProps exampleHooks True)) =
      [VText (js ''Found ''), VNum 2, VText (js '' suppliers matching your criteria'')] \<and>
    sectionCards (nodeAt (supplierSectionPath 1) (ChatPage toLowerASCII exampleProps exampleHooks True)) =
      [SupplierCard techSource, SupplierCard pacificComponents] \<and>
    cardTitle (sectionCards (nodeAt (supplierSectionPath 1) (ChatPage toLowerASCII exampleProps exampleHooks True)) ! 1) =
      VText (js ''Pacific Components'')) \<and>
   (0 < length (messages exampleProps) \<and>
    message_suppliers (messages exampleProps ! 0) = None \<and>
    nodeAt (supplierSectionPath 0) (ChatPage toLowerASCII exampleProps exampleHooks True) = VNothing)"
proof -
  have l1: "1 < length (messages exampleProps)" and l0: "0 < length (messages exampleProps)"
    by (simp_all add: exampleProps_def exampleMessages_def)
  have s1: "message_suppliers (messages exampleProps ! 1) = Some [techSource, pacificComponents]"
    and s0: "message_suppliers (messages exampleProps ! 0) = None"
    by (simp_all add: exampleProps_def exampleMessages_def)
  have n: "supplier_name ([techSource, pacificComponents] ! 1) = js ''Pacific Components''"
    by (simp add: pacificComponents_def)
  from supplier_section_rendering [OF l1, of toLowerASCII exampleHooks True]
       supplier_section_rendering [OF l0, of toLowerASCII exampleHooks True]
       l1 l0 s1 s0 n
  show ?thesis by (simp add: cardTitle_SupplierCard)
qed

section \<open>The input bar\<close>

text \<open>
  C4. Under the input bar the page has two places. The first holds the message
  \<open>Voice input is not supported in this browser.\<close> exactly when the speech hook
  reports \<open>isSupported\<close> as false, and nothing otherwise. The second holds the text
  of the speech error exactly when that error is a non-empty string, and nothing
  otherwise. Apart from this second place the page is the same whatever the
  speech error is: the error shows nowhere else.
\<close>

theorem speech_messages_shown:
  "(nodeAt unsupportedSlotPath (ChatPage toLowerCase p h opn) =
      VElem ''div'' [] [VText (js ''Voice input is not supported in this browser.'')]
    \<longleftrightarrow> \<not> isSupported (speech h)) \<and>
   (nodeAt unsupportedSlotPath (ChatPage toLowerCase p h opn) = VNothing
    \<longleftrightarrow> isSupported (speech h)) \<and>
   (nodeAt speechErrorSlotPath (ChatPage toLowerCase p h opn) \<noteq> VNothing
    \<longleftrightarrow> (\<exists>e. speechError (speech h) = Some e \<and> e \<noteq> [])) \<and>
   (\<forall>e. speechError (speech h) = Some e \<and> e \<noteq> [] \<longrightarrow>
      nodeAt speechErrorSlotPath (ChatPage toLowerCase p h opn) = VElem ''div'' [] [VText e]) \<and>
   replaceAt speechErrorSlotPath VNothing
     (ChatPage toLowerCase p (h\<lparr>speech := (speech h)\<lparr>speechError := e'\<rparr>\<rparr>) opn) =
   replaceAt speechErrorSlotPath VNothing (ChatPage toLowerCase p h opn)"
  by (simp add: page_unsupportedSlot page_speechErrorSlot page_without_speechError
      split: option.split)

theorem speech_messages_shown_witness:
  "speechError (speech (exampleHooks\<lparr>speech := exampleSpeech\<lparr>isSupported := False,
      speechError := Some (js ''no-speech'')\<rparr>\<rparr>)) = Some (js ''no-speech'') \<and>
   js ''no-speech'' \<noteq> [] \<and>
   nodeAt speechErrorSlotPath
     (ChatPage toLowerASCII exampleProps
        (exampleHooks\<lparr>speech := exampleSpeech\<lparr>isSupported := False,
           speechError := Some (js ''no-speech'')\<rparr>\<rparr>) True) =
     VElem ''div'' [] [VText (js ''no-speech'')] \<and>
   nodeAt unsupportedSlotPath
     (ChatPage toLowerASCII exampleProps
        (exampleHooks\<lparr>speech := exampleSpeech\<lparr>isSupported := False,
           speechError := Some (js ''no-speech'')\<rparr>\<rparr>) True) =
     VElem ''div'' [] [VText (js ''Voice input is not supported in this browser.'')] \<and>
   nodeAt unsupportedSlotPath (ChatPage toLowerASCII exampleProps exampleHooks True) = VNothing \<and>
   \<not> nodeAt speechErrorSlotPath (ChatPage toLowerASCII exampleProps exampleHooks True) \<noteq> VNothing"
proof -
  have e: "js ''no-speech'' \<noteq> []"
    by (simp add: js_def)
  have s: "isSupported (speech exampleHooks)" "speechError (speech exampleHooks) = None"
    by (simp_all add: exampleHooks_def exampleSpeech_def)
  from e s
    speech_messages_shown [of toLowerASCII exampleProps
      "exampleHooks\<lparr>speech := exampleSpeech\<lparr>isSupported := False,
         speechError := Some (js ''no-speech'')\<rparr>\<rparr>" True]
    speech_messages_shown [of toLowerASCII exampleProps exampleHooks True]
  show ?thesis by simp
qed

lemma quiet_InputBar: "isAssistantTyping p \<Longrightarrow> quiet k (InputBar p sp)"
  by (cases k) (simp_all add: InputBar_def icon_def split: option.split)

lemma inputBar_never_sends:
  assumes "isAssistantTyping p"
  shows "OnSendMessage \<notin> set (newCalls i
           (snd (dispatch thr k e (inputBarPath @ sub) (ChatPage toLowerCase p h opn) i)))"
proof -
  from dispatch_calls [OF quiet_InputBar [OF assms, where k = k and sp = "speech h"],
      where thr = thr and e = e and path = sub and i = i]
  obtain cs where "trace (snd (dispatch thr k e sub (InputBar p (speech h)) i)) = trace i @ cs"
    and "OnSendMessage \<notin> set cs"
    by blast
  then show ?thesis
    by (simp add: dispatch_inputBar newCalls_def del: dispatch.simps)
qed

lemma inputBar_enter:
  "\<not> isAssistantTyping p \<Longrightarrow> key e = js ''Enter'' \<Longrightarrow>
   dispatch thr KeyDown e [0, 0] (InputBar p sp) i = (Inr True, call OnSendMessage i)"
  by (simp add: InputBar_def handle_eq isDisabled_def call_def newCalls_def)

lemma inputBar_send_click:
  "sub = [0, 2] \<or> sub = [0, 2, 0] \<Longrightarrow>
   dispatch thr Click e sub (InputBar p sp) i =
     (if isAssistantTyping p \<or> trim (currentMessage p) = [] then (Inr False, i)
      else (Inr True, call OnSendMessage i))"
  by (auto simp: InputBar_def handle_eq isDisabled_def icon_def call_def newCalls_def)

lemma page_controls:
  "nodeAt messageInputPath (ChatPage toLowerCase p h opn) = nodeAt [0, 0] (InputBar p (speech h))"
  "nodeAt sendButtonPath (ChatPage toLowerCase p h opn) = nodeAt [0, 2] (InputBar p (speech h))"
  by (simp_all add: messageInputPath_def sendButtonPath_def inputBarPath_def ChatPage_def MainArea_def)

text \<open>
  C10. While the assistant is typing, no event of any kind, with any target in
  the input bar, calls \<open>onSendMessage\<close>: the key handler of the input checks
  \<open>isAssistantTyping\<close> itself, and the input and the send button are disabled. When
  the assistant is not typing, Enter in the input calls \<open>onSendMessage\<close> whatever
  the current message is, also when it is empty or blank. The send button is
  disabled exactly when the assistant is typing or the trimmed message is empty;
  a click on it or on its icon calls \<open>onSendMessage\<close> when it is not disabled and
  is not dispatched when it is.
\<close>

theorem input_bar_send:
  "(isAssistantTyping p \<longrightarrow>
      OnSendMessage \<notin> set (newCalls i
        (snd (dispatch thr k e (inputBarPath @ sub) (ChatPage toLowerCase p h opn) i))) \<and>
      fire thr (MessageInputKeyDown (isAssistantTyping p)) e i = (Inr (), i)) \<and>
   (\<not> isAssistantTyping p \<and> key e = js ''Enter'' \<longrightarrow>
      dispatch thr KeyDown e messageInputPath (ChatPage toLowerCase p h opn) i =
        (Inr True, call OnSendMessage i)) \<and>
   (isDisabled (nodeAt messageInputPath (ChatPage toLowerCase p h opn)) \<longleftrightarrow> isAssistantTyping p) \<and>
   (isDisabled (nodeAt sendButtonPath (ChatPage toLowerCase p h opn)) \<longleftrightarrow>
      isAssistantTyping p \<or> trim (currentMessage p) = []) \<and>
   (t = sendButtonPath \<or> t = sendButtonPath @ [0] \<longrightarrow>
      dispatch thr Click e t (ChatPage toLowerCase p h opn) i =
        (if isAssistantTyping p \<or> trim (currentMessage p) = [] then (Inr False, i)
         else (Inr True, call OnSendMessage i)))"
proof (intro conjI impI)
  assume "isAssistantTyping p"
  then show "OnSendMessage \<notin> set (newCalls i
        (snd (dispatch thr k e (inputBarPath @ sub) (ChatPage toLowerCase p h opn) i)))"
    by (rule inputBar_never_sends)
next
  assume "isAssistantTyping p"
  then show "fire thr (MessageInputKeyDown (isAssistantTyping p)) e i = (Inr (), i)"
    by simp
next
  assume a: "\<not> isAssistantTyping p \<and> key e = js ''Enter''"
  have "dispatch thr KeyDown e [0, 0] (InputBar p (speech h)) i = (Inr True, call OnSendMessage i)"
    by (rule inputBar_enter) (use a in simp_all)
  then show "dispatch thr KeyDown e messageInputPath (ChatPage toLowerCase p h opn) i =
        (Inr True, call OnSendMessage i)"
    by (simp only: messageInputPath_def dispatch_inputBar)
next
  show "isDisabled (nodeAt messageInputPath (ChatPage toLowerCase p h opn)) \<longleftrightarrow> isAssistantTyping p"
    by (simp add: page_controls InputBar_def isDisabled_def)
next
  show "isDisabled (nodeAt sendButtonPath (ChatPage toLowerCase p h opn)) \<longleftrightarrow>
      isAssistantTyping p \<or> trim (currentMessage p) = []"
    by (simp add: page_controls InputBar_def isDisabled_def)
next
  assume "t = sendButtonPath \<or> t = sendButtonPath @ [0]"
  then obtain sub where t: "t = inputBarPath @ sub" and sub: "sub = [0, 2] \<or> sub = [0, 2, 0]"
    by (auto simp: sendButtonPath_def)
  from sub show "dispatch thr Click e t (ChatPage toLowerCase p h opn) i =
        (if isAssistantTyping p \<or> trim (currentMessage p) = [] then (Inr False, i)
         else (Inr True, call OnSendMessage i))"
    by (simp only: t dispatch_inputBar inputBar_send_click)
qed

theorem input_bar_send_witness:
  "(isAssistantTyping (exampleProps\<lparr>isAssistantTyping := True\<rparr>) \<and>
    OnSendMessage \<notin> set (newCalls exampleInstance
      (snd (dispatch (\<lambda>url. None) KeyDown exampleEvent (inputBarPath @ [0, 0])
             (ChatPage toLowerASCII (exampleProps\<lparr>isAssistantTyping := True\<rparr>) exampleHooks True)
             exampleInstance)))) \<and>
   (\<not> isAssistantTyping exampleProps \<and> key exampleEvent = js ''Enter'' \<and>
    trim (currentMessage exampleProps) = [] \<and>
    dispatch (\<lambda>url. None) KeyDown exampleEvent messageInputPath
      (ChatPage toLowerASCII exampleProps exampleHooks True) exampleInstance =
      (Inr True, exampleInstance\<lparr>trace := [OnSendMessage]\<rparr>) \<and>
    isDisabled (nodeAt sendButtonPath (ChatPage toLowerASCII exampleProps exampleHooks True))) \<and>
   (\<not> isDisabled (nodeAt sendButtonPath
        (ChatPage toLowerASCII (exampleProps\<lparr>currentMessage := js ''hi''\<rparr>) exampleHooks True)) \<and>
    dispatch (\<lambda>url. None) Click exampleEvent sendButtonPath
      (ChatPage toLowerASCII (exampleProps\<lparr>currentMessage := js ''hi''\<rparr>) exampleHooks True)
      exampleInstance = (Inr True, exampleInstance\<lparr>trace := [OnSendMessage]\<rparr>))"
proof -
  let ?typing = "exampleProps\<lparr>isAssistantTyping := True\<rparr>"
  let ?hi = "exampleProps\<lparr>currentMessage := js ''hi''\<rparr>"
  have t: "isAssistantTyping ?typing" "\<not> isAssistantTyping exampleProps"
    "key exampleEvent = js ''Enter''" "trim (currentMessage exampleProps) = []"
    "\<not> isAssistantTyping ?hi" "trim (currentMessage ?hi) \<noteq> []"
    by (simp_all add: exampleProps_def exampleEvent_def trim_def isWhiteSpace_def js_def)
  have c: "call OnSendMessage exampleInstance = exampleInstance\<lparr>trace := [OnSendMessage]\<rparr>"
    by (simp add: call_def exampleInstance_def)
  have a: "OnSendMessage \<notin> set (newCalls exampleInstance
      (snd (dispatch (\<lambda>url. None) KeyDown exampleEvent (inputBarPath @ [0, 0])
             (ChatPage toLowerASCII ?typing exampleHooks True) exampleInstance)))"
    using t(1)
      input_bar_send [of ?typing exampleInstance "\<lambda>url. None" KeyDown exampleEvent "[0, 0]"
        toLowerASCII exampleHooks True sendButtonPath]
    by blast
  have b: "dispatch (\<lambda>url. None) KeyDown exampleEvent messageInputPath
      (ChatPage toLowerASCII exampleProps exampleHooks True) exampleInstance =
      (Inr True, call OnSendMessage exampleInstance)"
    and b': "isDisabled (nodeAt sendButtonPath (ChatPage toLowerASCII exampleProps exampleHooks True))"
    using t(2, 3, 4)
      input_bar_send [of exampleProps exampleInstance "\<lambda>url. None" KeyDown exampleEvent "[0, 0]"
        toLowerASCII exampleHooks True sendButtonPath]
    by blast+
  have d: "\<not> isDisabled (nodeAt sendButtonPath (ChatPage toLowerASCII ?hi exampleHooks True))"
    and d': "dispatch (\<lambda>url. None) Click exampleEvent sendButtonPath
      (ChatPage toLowerASCII ?hi exampleHooks True) exampleInstance =
      (Inr True, call OnSendMessage exampleInstance)"
    using t(5, 6)
      input_bar_send [of ?hi exampleInstance "\<lambda>url. None" Click exampleEvent "[0, 0]"
        toLowerASCII exampleHooks True sendButtonPath]
    by simp_all
  from t a b b' d d' show ?thesis
    by (simp only: c) blast
qed

section \<open>The transcript effects\<close>

lemma hasRef_InputRef: "hasRef InputRef (ChatPage toLowerCase p h opn)"
  by (simp add: ChatPage_def MainArea_def InputBar_def)

lemma runEffect_trace:
  "trace (runEffect deps f prev cur i) = (if depsChanged deps prev cur then trace (f cur i) else trace i)"
  by (simp add: runEffect_def)

lemma transcriptEffect_trace:
  "trace (transcriptEffect (p, h, opn) i) =
     trace i @ (if isRecording (speech h) \<and> \<not> isAssistantTyping p
                then [OnMessageChange (transcript (speech h))] else [])"
  by (simp add: transcriptEffect_def call_def)

lemma clearTranscriptEffect_trace:
  "trace (clearTranscriptEffect (p, h, opn) i) =
     trace i @ (if currentMessage p = [] \<and> \<not> isRecording (speech h)
                then [SetTranscript []] else [])"
  by (simp add: clearTranscriptEffect_def call_def)

lemma recordingEndedEffect_trace:
  "trace (recordingEndedEffect (ChatPage toLowerCase p h opn) (p, h, opn) i) =
     trace i @ (if \<not> isRecording (speech h) \<and> transcript (speech h) \<noteq> [] \<and> \<not> isAssistantTyping p
                then [OnMessageChange (transcript (speech h)), Focus InputRef] else [])"
  by (simp add: recordingEndedEffect_def call_def hasRef_InputRef Let_def)

lemma scrollEffect_trace:
  "trace (scrollEffect view (p, h, opn) i) =
     trace i @ (if hasRef MessagesEndRef view then [ScrollIntoView MessagesEndRef] else [])"
  by (simp add: scrollEffect_def call_def)

lemma renameFocusEffect_trace:
  "trace (renameFocusEffect view (p, h, opn) i) =
     trace i @ (if renamingChatId p \<noteq> None \<and> renamingChatId p \<noteq> Some [] \<and> hasRef RenameInputRef view
                then [Focus RenameInputRef] else [])"
  by (simp add: renameFocusEffect_def call_def)

text \<open>The calls of one commit, effect by effect.\<close>

lemma runEffects_newCalls:
  "newCalls i (runEffects toLowerCase prev (p, h, opn) i) =
     (if depsChanged transcriptDeps prev (p, h, opn) \<and> isRecording (speech h) \<and> \<not> isAssistantTyping p
      then [OnMessageChange (transcript (speech h))] else []) @
     (if depsChanged clearTranscriptDeps prev (p, h, opn) \<and> currentMessage p = [] \<and>
         \<not> isRecording (speech h)
      then [SetTranscript []] else []) @
     (if depsChanged recordingEndedDeps prev (p, h, opn) \<and> \<not> isRecording (speech h) \<and>
         transcript (speech h) \<noteq> [] \<and> \<not> isAssistantTyping p
      then [OnMessageChange (transcript (speech h)), Focus InputRef] else []) @
     (if depsChanged scrollDeps prev (p, h, opn) \<and>
         hasRef MessagesEndRef (ChatPage toLowerCase p h opn)
      then [ScrollIntoView MessagesEndRef] else []) @
     (if depsChanged renameFocusDeps prev (p, h, opn) \<and> renamingChatId p \<noteq> None \<and>
         renamingChatId p \<noteq> Some [] \<and> hasRef RenameInputRef (ChatPage toLowerCase p h opn)
      then [Focus RenameInputRef] else [])"
  by (simp add: newCalls_def runEffects_def Let_def runEffect_trace transcriptEffect_trace
      clearTranscriptEffect_trace recordingEndedEffect_trace scrollEffect_trace
      renameFocusEffect_trace)

lemma sublist_middle: "sublist c (a @ b @ c @ d @ e)"
proof -
  have "a @ b @ c @ d @ e = (a @ b) @ c @ (d @ e)"
    by simp
  then show ?thesis
    unfolding sublist_def by blast
qed

lemma transcript_changed:
  "transcript (speech h0) \<noteq> transcript (speech h) \<Longrightarrow>
   depsChanged transcriptDeps (Some (p0, h0, opn0)) (p, h, opn)"
  by (simp add: depsChanged_def transcriptDeps_def)

lemma recording_stopped:
  "isRecording (speech h0) \<Longrightarrow> \<not> isRecording (speech h) \<Longrightarrow>
   depsChanged recordingEndedDeps (Some (p0, h0, opn0)) (p, h, opn)"
  by (auto simp add: depsChanged_def recordingEndedDeps_def)

text \<open>
  C6. At the commit of a render in which recording is in progress and the
  assistant is not typing, if the transcript differs from that of the render
  before, \<open>onMessageChange\<close> is called with the new transcript. At the commit of a
  render in which recording is not in progress, the transcript is not empty and
  the assistant is not typing, when the effect of lines 368 to 375 runs,
  \<open>onMessageChange\<close> is called with the transcript and then the text input is
  focused; and that effect runs at the render after recording stopped, since
  \<open>isRecording\<close> is one of its dependencies. At the commit of a render in which the
  assistant is typing, no effect calls \<open>onMessageChange\<close> at all.
\<close>

theorem transcript_effects:
  "(isRecording (speech h) \<and> \<not> isAssistantTyping p \<and>
    transcript (speech h0) \<noteq> transcript (speech h) \<longrightarrow>
      OnMessageChange (transcript (speech h))
        \<in> set (newCalls i (runEffects toLowerCase (Some (p0, h0, opn0)) (p, h, opn) i))) \<and>
   (\<not> isRecording (speech h) \<and> transcript (speech h) \<noteq> [] \<and> \<not> isAssistantTyping p \<and>
    depsChanged recordingEndedDeps prev (p, h, opn) \<longrightarrow>
      sublist [OnMessageChange (transcript (speech h)), Focus InputRef]
        (newCalls i (runEffects toLowerCase prev (p, h, opn) i))) \<and>
   (isRecording (speech h0) \<and> \<not> isRecording (speech h) \<longrightarrow>
      depsChanged recordingEndedDeps (Some (p0, h0, opn0)) (p, h, opn)) \<and>
   (isAssistantTyping p \<longrightarrow>
      filter isOnMessageChange (newCalls i (runEffects toLowerCase prev (p, h, opn) i)) = [])"
proof (intro conjI impI)
  assume "isRecording (speech h) \<and> \<not> isAssistantTyping p \<and>
    transcript (speech h0) \<noteq> transcript (speech h)"
  then show "OnMessageChange (transcript (speech h))
        \<in> set (newCalls i (runEffects toLowerCase (Some (p0, h0, opn0)) (p, h, opn) i))"
    by (simp add: runEffects_newCalls transcript_changed)
next
  assume a: "\<not> isRecording (speech h) \<and> transcript (speech h) \<noteq> [] \<and> \<not> isAssistantTyping p \<and>
    depsChanged recordingEndedDeps prev (p, h, opn)"
  then have c: "(depsChanged recordingEndedDeps prev (p, h, opn) \<and> \<not> isRecording (speech h) \<and>
         transcript (speech h) \<noteq> [] \<and> \<not> isAssistantTyping p) = True"
    by simp
  show "sublist [OnMessageChange (transcript (speech h)), Focus InputRef]
        (newCalls i (runEffects toLowerCase prev (p, h, opn) i))"
    by (simp only: runEffects_newCalls c if_True) (rule sublist_middle)
next
  assume "isRecording (speech h0) \<and> \<not> isRecording (speech h)"
  then show "depsChanged recordingEndedDeps (Some (p0, h0, opn0)) (p, h, opn)"
    by (simp add: recording_stopped)
next
  assume "isAssistantTyping p"
  then show "filter isOnMessageChange (newCalls i (runEffects toLowerCase prev (p, h, opn) i)) = []"
    by (simp add: runEffects_newCalls)
qed

theorem transcript_effects_witness:
  "(isRecording (speech (exampleHooks\<lparr>speech := exampleSpeech\<lparr>isRecording := True\<rparr>\<rparr>)) \<and>
    \<not> isAssistantTyping exampleProps \<and>
    transcript (speech (exampleHooks\<lparr>speech := exampleSpeech\<lparr>transcript := js ''hell''\<rparr>\<rparr>)) \<noteq>
      transcript (speech (exampleHooks\<lparr>speech := exampleSpeech\<lparr>isRecording := True\<rparr>\<rparr>)) \<and>
    OnMessageChange (js ''hello'')
      \<in> set (newCalls exampleInstance
           (runEffects toLowerASCII
              (Some (exampleProps,
                 exampleHooks\<lparr>speech := exampleSpeech\<lparr>transcript := js ''hell''\<rparr>\<rparr>, True))
              (exampleProps, exampleHooks\<lparr>speech := exampleSpeech\<lparr>isRecording := True\<rparr>\<rparr>, True)
              exampleInstance))) \<and>
   (\<not> isRecording (speech exampleHooks) \<and> transcript (speech exampleHooks) \<noteq> [] \<and>
    isRecording (speech (exampleHooks\<lparr>speech := exampleSpeech\<lparr>isRecording := True\<rparr>\<rparr>)) \<and>
    depsChanged recordingEndedDeps
      (Some (exampleProps, exampleHooks\<lparr>speech := exampleSpeech\<lparr>isRecording := True\<rparr>\<rparr>, True))
      (exampleProps, exampleHooks, True) \<and>
    sublist [OnMessageChange (js ''hello''), Focus InputRef]
      (newCalls exampleInstance
         (runEffects toLowerASCII
            (Some (exampleProps, exampleHooks\<lparr>speech := exampleSpeech\<lparr>isRecording := True\<rparr>\<rparr>, True))
            (exampleProps, exampleHooks, True) exampleInstance))) \<and>
   (isAssistantTyping (exampleProps\<lparr>isAssistantTyping := True\<rparr>) \<and>
    filter isOnMessageChange
      (newCalls exampleInstance
         (runEffects toLowerASCII None
            (exampleProps\<lparr>isAssistantTyping := True\<rparr>, exampleHooks, True) exampleInstance)) = [])"
proof -
  let ?rec = "exampleHooks\<lparr>speech := exampleSpeech\<lparr>isRecording := True\<rparr>\<rparr>"
  let ?old = "exampleHooks\<lparr>speech := exampleSpeech\<lparr>transcript := js ''hell''\<rparr>\<rparr>"
  have v: "\<not> isAssistantTyping exampleProps" "\<not> isRecording (speech exampleHooks)"
    "transcript (speech exampleHooks) = js ''hello''" "js ''hello'' \<noteq> []"
    "isAssistantTyping (exampleProps\<lparr>isAssistantTyping := True\<rparr>)"
    by (simp_all add: exampleProps_def exampleHooks_def exampleSpeech_def js_def)
  have s: "isRecording (speech ?rec)" "transcript (speech ?rec) = js ''hello''"
    "transcript (speech ?old) \<noteq> transcript (speech ?rec)"
    by (simp_all add: exampleSpeech_def js_def)
  have a: "OnMessageChange (js ''hello'')
      \<in> set (newCalls exampleInstance
           (runEffects toLowerASCII (Some (exampleProps, ?old, True)) (exampleProps, ?rec, True)
              exampleInstance))"
    using v(1) s
      transcript_effects [of ?rec exampleProps ?old exampleInstance toLowerASCII exampleProps
        True True None]
    by simp
  have d: "depsChanged recordingEndedDeps (Some (exampleProps, ?rec, True))
      (exampleProps, exampleHooks, True)"
    using v(2) s(1)
      transcript_effects [of exampleHooks exampleProps ?rec exampleInstance toLowerASCII
        exampleProps True True None]
    by blast
  have b: "sublist [OnMessageChange (js ''hello''), Focus InputRef]
      (newCalls exampleInstance
         (runEffects toLowerASCII (Some (exampleProps, ?rec, True))
            (exampleProps, exampleHooks, True) exampleInstance))"
    using v d
      transcript_effects [of exampleHooks exampleProps ?rec exampleInstance toLowerASCII
        exampleProps True True "Some (exampleProps, ?rec, True)"]
    by simp
  have c: "filter isOnMessageChange
      (newCalls exampleInstance
         (runEffects toLowerASCII None
            (exampleProps\<lparr>isAssistantTyping := True\<rparr>, exampleHooks, True) exampleInstance)) = []"
    using v(5)
      transcript_effects [of exampleHooks "exampleProps\<lparr>isAssistantTyping := True\<rparr>"
        exampleHooks exampleInstance toLowerASCII exampleProps True True None]
    by blast
  from v s a b c d show ?thesis
    by simp
qed

section \<open>Renaming and the local state\<close>

lemma rowTitleSlot_ChatRow:
  "rowTitleSlot (ChatRow p h chat) =
     (if renamingChatId p = Some (chat_id chat)
      then VElem ''input''
             [Ref RenameInputRef, Value (renameValue p), On Change RenameInputChange,
              On Blur (RenameInputBlur (chat_id chat)),
              On KeyDown (RenameInputKeyDown (chat_id chat)), AutoFocus,
              On Click RenameInputClick] []
      else VElem ''div'' []
             [VElem ''span'' [On Click (TitleClick chat), Title (js ''Click to rename'')]
                [VText (chat_title chat)],
              VElem ''button'' [On Click (TitleClick chat), Title (js ''Rename'')]
                [icon ''svg'']])"
  by (simp add: rowTitleSlot_def ChatRow_def)

lemma fire_opens:
  "\<not> sidebarOpen i \<Longrightarrow> sidebarOpen (snd (fire thr hdl e i)) \<Longrightarrow> hdl = ToggleSidebar False"
  by (cases hdl)
     (simp_all add: call_def setSidebarOpen_def handleMobileChatSelect_def Let_def
        split: prod.splits if_splits)

lemma fire_closes:
  "sidebarOpen i \<Longrightarrow> \<not> sidebarOpen (snd (fire thr hdl e i)) \<Longrightarrow>
   hdl = ToggleSidebar True \<or> hdl = CloseSidebar \<or> hdl = CreateNewChatAndClose \<or>
   (\<exists>c. hdl = SelectChat True c)"
  by (cases hdl)
     (simp_all add: call_def setSidebarOpen_def handleMobileChatSelect_def Let_def
        split: prod.splits if_splits)

text \<open>
  C2, as the code has it. The state of the component itself is \<open>sidebarOpen\<close>
  alone; the mobile flag comes from a hook. Which chat is being renamed and the
  text of the rename are props: a row shows the rename input exactly when the
  prop \<open>renamingChatId\<close> is the id of its chat, with the prop \<open>renameValue\<close> as its
  value, and shows the title otherwise. The handlers of renaming call the
  callbacks of the parent and leave \<open>sidebarOpen\<close> and the browser as they are.
  The only handler that opens a closed sidebar is the menu button's, rendered
  while it was closed; the only handlers that close an open one are the menu
  button's, the overlay's and the close button's, the mobile new-chat button's,
  and a chat row's in mobile mode.
\<close>

theorem rename_state_is_props:
  "((\<exists>as. rowTitleSlot (ChatRow p h chat) = VElem ''input'' as []) \<longleftrightarrow>
      renamingChatId p = Some (chat_id chat)) \<and>
   (renamingChatId p = Some (chat_id chat) \<longrightarrow>
      Value (renameValue p) \<in> set (attrs (rowTitleSlot (ChatRow p h chat)))) \<and>
   (renamingChatId p \<noteq> Some (chat_id chat) \<longrightarrow>
      nodeAt [0, 0] (rowTitleSlot (ChatRow p h chat)) = VText (chat_title chat)) \<and>
   fire thr (TitleClick chat) e i = (Inr (), i\<lparr>trace := trace i @ [StopPropagation, OnStartRename chat]\<rparr>) \<and>
   fire thr RenameInputChange e i = (Inr (), i\<lparr>trace := trace i @ [OnRenameChange (target_value e)]\<rparr>) \<and>
   fire thr (RenameInputBlur c) e i = (Inr (), i\<lparr>trace := trace i @ [OnRenameSave c]\<rparr>) \<and>
   fire thr (RenameInputKeyDown c) e i = (Inr (), i\<lparr>trace := trace i @ [OnRenameKeyDown e c]\<rparr>) \<and>
   fire thr RenameInputClick e i = (Inr (), i\<lparr>trace := trace i @ [StopPropagation]\<rparr>) \<and>
   (\<not> sidebarOpen i \<and> sidebarOpen (snd (fire thr hdl e i)) \<longrightarrow> hdl = ToggleSidebar False) \<and>
   (sidebarOpen i \<and> \<not> sidebarOpen (snd (fire thr hdl e i)) \<longrightarrow>
      hdl = ToggleSidebar True \<or> hdl = CloseSidebar \<or> hdl = CreateNewChatAndClose \<or>
      (\<exists>c. hdl = SelectChat True c))"
  using fire_opens [of i thr hdl e] fire_closes [of i thr hdl e]
  by (simp add: rowTitleSlot_ChatRow call_def)

theorem rename_state_is_props_witness:
  "(renamingChatId (exampleProps\<lparr>renamingChatId := Some (js ''c1''), renameValue := js ''Asia''\<rparr>) =
      Some (chat_id (exampleChats ! 0)) \<and>
    Value (js ''Asia'')
      \<in> set (attrs (rowTitleSlot
            (ChatRow (exampleProps\<lparr>renamingChatId := Some (js ''c1''), renameValue := js ''Asia''\<rparr>)
               exampleHooks (exampleChats ! 0))))) \<and>
   (renamingChatId exampleProps \<noteq> Some (chat_id (exampleChats ! 0)) \<and>
    nodeAt [0, 0] (rowTitleSlot (ChatRow exampleProps exampleHooks (exampleChats ! 0))) =
      VText (chat_title (exampleChats ! 0))) \<and>
   (\<not> sidebarOpen (exampleInstance\<lparr>sidebarOpen := False\<rparr>) \<and>
    sidebarOpen (snd (fire (\<lambda>url. None) (ToggleSidebar False) exampleEvent
                       (exampleInstance\<lparr>sidebarOpen := False\<rparr>)))) \<and>
   (sidebarOpen exampleInstance \<and>
    \<not> sidebarOpen (snd (fire (\<lambda>url. None) (SelectChat True (js ''c1'')) exampleEvent exampleInstance)))"
proof -
  let ?p = "exampleProps\<lparr>renamingChatId := Some (js ''c1''), renameValue := js ''Asia''\<rparr>"
  have r: "renamingChatId ?p = Some (chat_id (exampleChats ! 0))"
    "renamingChatId exampleProps \<noteq> Some (chat_id (exampleChats ! 0))"
    "renameValue ?p = js ''Asia''"
    by (simp_all add: exampleProps_def exampleChats_def)
  have o: "\<not> sidebarOpen (exampleInstance\<lparr>sidebarOpen := False\<rparr>)"
    "sidebarOpen (snd (fire (\<lambda>url. None) (ToggleSidebar False) exampleEvent
                       (exampleInstance\<lparr>sidebarOpen := False\<rparr>)))"
    "sidebarOpen exampleInstance"
    "\<not> sidebarOpen (snd (fire (\<lambda>url. None) (SelectChat True (js ''c1'')) exampleEvent exampleInstance))"
    by (simp_all add: exampleInstance_def setSidebarOpen_def handleMobileChatSelect_def call_def)
  have a: "Value (renameValue ?p)
      \<in> set (attrs (rowTitleSlot (ChatRow ?p exampleHooks (exampleChats ! 0))))"
    using r(1) rename_state_is_props [of ?p exampleHooks "exampleChats ! 0" "\<lambda>url. None"
      exampleEvent exampleInstance "js ''c1''" CloseSidebar]
    by blast
  have b: "nodeAt [0, 0] (rowTitleSlot (ChatRow exampleProps exampleHooks (exampleChats ! 0))) =
      VText (chat_title (exampleChats ! 0))"
    using r(2) rename_state_is_props [of exampleProps exampleHooks "exampleChats ! 0" "\<lambda>url. None"
      exampleEvent exampleInstance "js ''c1''" CloseSidebar]
    by blast
  from a have a': "Value (js ''Asia'')
      \<in> set (attrs (rowTitleSlot (ChatRow ?p exampleHooks (exampleChats ! 0))))"
    by (simp only: r(3))
  from r(1) r(2) a' b o show ?thesis
    by blast
qed

text \<open>
  C2, as it is written, fails. With the same \<open>sidebarOpen\<close> and the same hook
  values, the first row of the chat list is a title under one value of the props
  \<open>renamingChatId\<close> and \<open>renameValue\<close>, and a rename input holding the text of
  \<open>renameValue\<close> under another; and a change of that input only calls the
  parent's \<open>onRenameChange\<close>: the state of the component stays as it was.
\<close>

theorem rename_state_supplied_by_parent:
  "rowTitleSlot (children (nodeAt chatListPath
       (ChatPage toLowerASCII exampleProps exampleHooks True)) ! 0) =
     VElem ''div'' []
       [VElem ''span'' [On Click (TitleClick (exampleChats ! 0)), Title (js ''Click to rename'')]
          [VText (js ''Electronics in Asia'')],
        VElem ''button'' [On Click (TitleClick (exampleChats ! 0)), Title (js ''Rename'')]
          [icon ''svg'']] \<and>
   rowTitleSlot (children (nodeAt chatListPath
       (ChatPage toLowerASCII
          (exampleProps\<lparr>renamingChatId := Some (js ''c1''), renameValue := js ''Asia''\<rparr>)
          exampleHooks True)) ! 0) =
     VElem ''input''
       [Ref RenameInputRef, Value (js ''Asia''), On Change RenameInputChange,
        On Blur (RenameInputBlur (js ''c1'')), On KeyDown (RenameInputKeyDown (js ''c1'')),
        AutoFocus, On Click RenameInputClick] [] \<and>
   deliver (\<lambda>url. None)
     (rowTitleSlot (children (nodeAt chatListPath
        (ChatPage toLowerASCII
           (exampleProps\<lparr>renamingChatId := Some (js ''c1''), renameValue := js ''Asia''\<rparr>)
           exampleHooks True)) ! 0))
     Change exampleEvent exampleInstance =
     (Inr (), exampleInstance\<lparr>trace := [OnRenameChange (js ''x'')]\<rparr>)"
proof -
  have f: "filteredChats toLowerASCII exampleProps = [exampleChats ! 0, exampleChats ! 2]"
    "filteredChats toLowerASCII
       (exampleProps\<lparr>renamingChatId := Some (js ''c1''), renameValue := js ''Asia''\<rparr>) =
     [exampleChats ! 0, exampleChats ! 2]"
    by (simp_all add: filteredChats_def exampleProps_def exampleChats_def toLowerASCII_def js_def)
  have r: "renamingChatId exampleProps = None" "chat_id (exampleChats ! 0) = js ''c1''"
    "chat_title (exampleChats ! 0) = js ''Electronics in Asia''"
    by (simp_all add: exampleProps_def exampleChats_def)
  have e: "target_value exampleEvent = js ''x''" "trace exampleInstance = []"
    by (simp_all add: exampleEvent_def exampleInstance_def)
  show ?thesis
    by (simp add: page_chatList f rowTitleSlot_ChatRow r deliver_def isDisabled_def call_def e)
qed

end
